theory Spec2Isabelle
  imports Complex_Main
begin

section \<open>The tensor library, as far as model.py uses it\<close>

text \<open>
  model.py builds its networks from the primitives of an external tensor library
  (\<^verbatim>\<open>torch\<close>) and takes one square root from \<^verbatim>\<open>numpy\<close>. This section
  states the behaviour of those primitives that the module relies on. Numbers are real
  numbers. Rounding is outside the embedding. Overflow is not computed either: a statement
  about the values of a forward pass carries the hypothesis that no quantity leaves the
  float32 range (section \<open>Notions used in the statements\<close>), since beyond it the library
  yields infinities and NaN where the real numbers go on. The one place where the module
  itself produces an infinity (\<^verbatim>\<open>1. / np.sqrt(0)\<close>) is written out. Tensors are of
  rank one or two, the ranks the networks are documented for; the library accepts other
  ranks too, and no statement here depends on their absence.
\<close>

datatype tensor =
    T1 "real list"          \<comment> \<open>rank 1: the entries\<close>
  | T2 nat "real list list" \<comment> \<open>rank 2: the number of columns, then the rows\<close>

fun ndim :: "tensor \<Rightarrow> nat" where
  "ndim (T1 xs) = 1"
| "ndim (T2 c rows) = 2"

fun size_of :: "tensor \<Rightarrow> nat list" where
  "size_of (T1 xs) = [length xs]"
| "size_of (T2 c rows) = [length rows, c]"

fun numel :: "tensor \<Rightarrow> nat" where
  "numel (T1 xs) = length xs"
| "numel (T2 c rows) = length rows * c"

fun entries :: "tensor \<Rightarrow> real list" where
  "entries (T1 xs) = xs"
| "entries (T2 c rows) = concat rows"

fun wf_tensor :: "tensor \<Rightarrow> bool" where
  "wf_tensor (T1 xs) = True"
| "wf_tensor (T2 c rows) = list_all (\<lambda>r. length r = c) rows"

text \<open>
  The failures of the library that the module can meet. The module catches none of them:
  each reaches the caller.
\<close>

datatype error =
    DimensionMismatch      \<comment> \<open>RuntimeError: shapes cannot be multiplied, sizes must match\<close>
  | DimensionOutOfRange    \<comment> \<open>IndexError: dimension out of range\<close>
  | ExpectedBatchInput     \<comment> \<open>ValueError: expected 2D or 3D input\<close>
  | SingleValuePerChannel  \<comment> \<open>ValueError: expected more than 1 value per channel when training\<close>
  | BoundOutOfRange        \<comment> \<open>RuntimeError: bound of a uniform range is out of bounds\<close>
  | SeedOutOfRange         \<comment> \<open>RuntimeError: seed outside the accepted range\<close>

subsection \<open>The random generator\<close>

text \<open>
  The library owns one process-wide generator. Its algorithm is not part of model.py, so it
  is a parameter: \<open>seed_state\<close> is the state after seeding, \<open>fill\<close> draws the
  given number of samples of the unit interval and gives the state after them.
\<close>

record 'g generator =
  seed_state :: "int \<Rightarrow> 'g"
  fill :: "'g \<Rightarrow> nat \<Rightarrow> real list \<times> 'g"

definition wf_generator :: "'g generator \<Rightarrow> bool" where
  "wf_generator G \<longleftrightarrow>
     (\<forall>g n. length (fst (fill G g n)) = n
            \<and> list_all (\<lambda>u. 0 \<le> u \<and> u < 1) (fst (fill G g n)))"

text \<open>
  \<^verbatim>\<open>torch.manual_seed(seed)\<close>: the seed must lie in
  \<open>[-0x8000_0000_0000_0000, 0xffff_ffff_ffff_ffff]\<close>.
\<close>

definition seed_ok :: "int \<Rightarrow> bool" where
  "seed_ok seed \<longleftrightarrow> - (2 ^ 63) \<le> seed \<and> seed \<le> 2 ^ 64 - 1"

definition manual_seed :: "'g generator \<Rightarrow> int \<Rightarrow> 'g \<Rightarrow> (error + unit) \<times> 'g" where
  "manual_seed G seed g =
     (if seed_ok seed then (Inr (), seed_state G seed) else (Inl SeedOutOfRange, g))"

text \<open>
  A bound handed to \<^verbatim>\<open>uniform_\<close> is a floating-point number, which may be infinite.
\<close>

datatype bound = NegInf | Finite real | PosInf

fun chop :: "nat \<Rightarrow> nat \<Rightarrow> 'a list \<Rightarrow> 'a list list" where
  "chop 0 c xs = []"
| "chop (Suc r) c xs = take c xs # chop r c (drop c xs)"

fun reshape_like :: "tensor \<Rightarrow> real list \<Rightarrow> tensor" where
  "reshape_like (T1 xs) vs = T1 (take (length xs) vs)"
| "reshape_like (T2 c rows) vs = T2 c (chop (length rows) c vs)"

text \<open>
  \<^verbatim>\<open>t.uniform_(from, to)\<close>, here \<open>uniform_inplace\<close>, overwrites every entry of
  \<open>t\<close>, in storage order, with \<open>from + (to - from) * u\<close> for a fresh sample \<open>u\<close>; the
  shape stays. The bounds are checked first, also for a tensor without entries.
\<close>

fun uniform_inplace :: "'g generator \<Rightarrow> tensor \<Rightarrow> bound \<Rightarrow> bound \<Rightarrow> 'g \<Rightarrow> (error + tensor) \<times> 'g" where
  "uniform_inplace G t (Finite lo) (Finite hi) g =
     (if lo \<le> hi then
        (let (us, g') = fill G g (numel t)
         in (Inr (reshape_like t (map (\<lambda>u. lo + (hi - lo) * u) us)), g'))
      else (Inl BoundOutOfRange, g))"
| "uniform_inplace G t lo hi g = (Inl BoundOutOfRange, g)"

subsection \<open>Linear layers\<close>

record linear =
  in_features :: nat
  out_features :: nat
  weight :: tensor   \<comment> \<open>of shape (out_features, in_features)\<close>
  bias :: tensor     \<comment> \<open>of shape (out_features)\<close>

text \<open>
  \<^verbatim>\<open>nn.Linear(in_features, out_features)\<close> allocates both tensors and fills them from
  the generator: weight and bias uniformly within \<open>1 / sqrt in_features\<close> of zero (the
  bound is 0 when \<open>in_features\<close> is 0).
\<close>

definition default_bound :: "nat \<Rightarrow> real" where
  "default_bound n = (if 0 < n then 1 / sqrt (real n) else 0)"

definition nn_Linear :: "'g generator \<Rightarrow> nat \<Rightarrow> nat \<Rightarrow> 'g \<Rightarrow> linear \<times> 'g" where
  "nn_Linear G n_in n_out g =
     (let b = default_bound n_in;
          (ws, g1) = fill G g (n_out * n_in);
          (bs, g2) = fill G g1 n_out
      in (\<lparr> in_features = n_in, out_features = n_out,
            weight = T2 n_in (chop n_out n_in (map (\<lambda>u. - b + (b - (- b)) * u) ws)),
            bias = T1 (take n_out (map (\<lambda>u. - b + (b - (- b)) * u) bs)) \<rparr>, g2))"

text \<open>
  Applying a layer (\<^verbatim>\<open>F.linear\<close>): every input row \<open>x\<close> becomes \<open>W x + b\<close>. The last
  dimension of the input must equal the second dimension of the weight; nothing is truncated
  or padded.
\<close>

definition dot :: "real list \<Rightarrow> real list \<Rightarrow> real" where
  "dot w x = sum_list (map2 (*) w x)"

definition affine :: "real list list \<Rightarrow> real list \<Rightarrow> real list \<Rightarrow> real list" where
  "affine wrows bs x = map2 (\<lambda>w b. dot w x + b) wrows bs"

definition linear_forward :: "linear \<Rightarrow> tensor \<Rightarrow> error + tensor" where
  "linear_forward l x =
     (case weight l of
        T1 ws \<Rightarrow> Inl DimensionMismatch
      | T2 k wrows \<Rightarrow>
          (case bias l of
             T2 c brows \<Rightarrow> Inl DimensionMismatch
           | T1 bs \<Rightarrow>
               if length bs \<noteq> length wrows then Inl DimensionMismatch
               else (case x of
                       T1 xs \<Rightarrow>
                         if length xs = k then Inr (T1 (affine wrows bs xs))
                         else Inl DimensionMismatch
                     | T2 c rows \<Rightarrow>
                         if c = k then Inr (T2 (length wrows) (map (affine wrows bs) rows))
                         else Inl DimensionMismatch)))"

subsection \<open>Elementwise functions, unsqueeze, cat\<close>

fun tmap :: "(real \<Rightarrow> real) \<Rightarrow> tensor \<Rightarrow> tensor" where
  "tmap f (T1 xs) = T1 (map f xs)"
| "tmap f (T2 c rows) = T2 c (map (map f) rows)"

definition relu :: "tensor \<Rightarrow> tensor" where
  "relu = tmap (\<lambda>v. max 0 v)"

definition tanh_t :: "tensor \<Rightarrow> tensor" where
  "tanh_t = tmap tanh"

text \<open>\<^verbatim>\<open>torch.unsqueeze(v, 0)\<close> on a tensor of rank one with the entries \<open>xs\<close>.\<close>

definition unsqueeze0 :: "real list \<Rightarrow> tensor" where
  "unsqueeze0 xs = T2 (length xs) [xs]"

text \<open>
  \<^verbatim>\<open>torch.cat((a, b), dim=1)\<close>. The tensors must have the same shape except in dimension
  1, or be the empty tensor of rank one (size (0,)), which is skipped. The dimension is
  looked up in the first tensor that is not skipped: a tensor of rank one has no dimension 1.
  When both are skipped the result is the empty tensor of rank one.
\<close>

fun cat_dim1 :: "tensor \<Rightarrow> tensor \<Rightarrow> error + tensor" where
  "cat_dim1 (T1 xs) (T1 ys) =
     (if xs = [] \<and> ys = [] then Inr (T1 []) else Inl DimensionOutOfRange)"
| "cat_dim1 (T1 xs) (T2 c rows) =
     (if xs = [] then Inr (T2 c rows) else Inl DimensionOutOfRange)"
| "cat_dim1 (T2 c rows) (T1 ys) =
     (if ys = [] then Inr (T2 c rows) else Inl DimensionMismatch)"
| "cat_dim1 (T2 c rows) (T2 c' rows') =
     (if length rows = length rows' then Inr (T2 (c + c') (map2 (@) rows rows'))
      else Inl DimensionMismatch)"

subsection \<open>Batch normalisation\<close>

record batchnorm =
  num_features :: nat
  eps :: real
  momentum :: real
  bn_weight :: "real list"
  bn_bias :: "real list"
  running_mean :: "real list"
  running_var :: "real list"
  num_batches_tracked :: nat
  training :: bool

text \<open>\<^verbatim>\<open>nn.BatchNorm1d(n)\<close>: a fresh module is in training mode.\<close>

definition nn_BatchNorm1d :: "nat \<Rightarrow> batchnorm" where
  "nn_BatchNorm1d n =
     \<lparr> num_features = n, eps = 1 / 100000, momentum = 1 / 10,
       bn_weight = replicate n 1, bn_bias = replicate n 0,
       running_mean = replicate n 0, running_var = replicate n 1,
       num_batches_tracked = 0, training = True \<rparr>"

definition vsum :: "nat \<Rightarrow> real list list \<Rightarrow> real list" where
  "vsum c rows = foldr (map2 (+)) rows (replicate c 0)"

definition batch_mean :: "nat \<Rightarrow> real list list \<Rightarrow> real list" where
  "batch_mean c rows = map (\<lambda>s. s / real (length rows)) (vsum c rows)"

definition batch_var :: "nat \<Rightarrow> real list list \<Rightarrow> real list" where
  "batch_var c rows =
     (let mu = batch_mean c rows
      in map (\<lambda>s. s / real (length rows))
           (vsum c (map (\<lambda>r. map2 (\<lambda>x m. (x - m) ^ 2) r mu) rows)))"

definition normalize_row ::
  "real \<Rightarrow> real list \<Rightarrow> real list \<Rightarrow> real list \<Rightarrow> real list \<Rightarrow> real list \<Rightarrow> real list" where
  "normalize_row e mu var w b r =
     map (\<lambda>(x, m, v, g, h). (x - m) / sqrt (v + e) * g + h)
       (zip r (zip mu (zip var (zip w b))))"

definition blend :: "real \<Rightarrow> real list \<Rightarrow> real list \<Rightarrow> real list" where
  "blend m old new = map2 (\<lambda>x y. (1 - m) * x + m * y) old new"

text \<open>
  Calling the module on \<open>x\<close>. The input must be a batch (rank two here). In training mode
  the call counts the batch, refuses a batch of one row, normalises each column with the
  mean and the biased variance of the batch, and blends the mean and the unbiased variance
  into the running statistics. In evaluation mode it normalises with the running
  statistics and changes nothing. A batch without rows comes back as it is.
\<close>

definition batch_norm_forward :: "batchnorm \<Rightarrow> tensor \<Rightarrow> (error + tensor) \<times> batchnorm" where
  "batch_norm_forward b x =
     (case x of
        T1 xs \<Rightarrow> (Inl ExpectedBatchInput, b)
      | T2 c rows \<Rightarrow>
          (let b1 = (if training b
                     then b\<lparr>num_batches_tracked := num_batches_tracked b + 1\<rparr> else b);
               n = length rows
           in if training b \<and> n = 1 then (Inl SingleValuePerChannel, b1)
              else if n = 0 then (Inr (T2 c []), b1)
              else if \<not> (length (running_mean b) = c \<and> length (running_var b) = c
                         \<and> length (bn_weight b) = c \<and> length (bn_bias b) = c)
                then (Inl DimensionMismatch, b1)
              else if training b then
                (let mu = batch_mean c rows; var = batch_var c rows
                 in (Inr (T2 c (map (normalize_row (eps b) mu var (bn_weight b) (bn_bias b))
                                  rows)),
                     b1\<lparr>running_mean := blend (momentum b) (running_mean b) mu,
                        running_var := blend (momentum b) (running_var b)
                          (map (\<lambda>v. v * real n / real (n - 1)) var)\<rparr>))
              else (Inr (T2 c (map (normalize_row (eps b) (running_mean b) (running_var b)
                                     (bn_weight b) (bn_bias b)) rows)), b1)))"

section \<open>model.py\<close>

subsection \<open>hidden_init\<close>

text \<open>
  \<^verbatim>\<open>fan_in = layer.weight.data.size()[0]\<close>, \<^verbatim>\<open>lim = 1. / np.sqrt(fan_in)\<close>,
  \<^verbatim>\<open>return (-lim, lim)\<close>. The division is a floating-point one: for \<open>fan_in = 0\<close> it
  gives infinity (with a warning), not an exception.
\<close>

definition hidden_init :: "linear \<Rightarrow> bound \<times> bound" where
  "hidden_init layer =
     (let fan_in = hd (size_of (weight layer))
      in if fan_in = 0 then (NegInf, PosInf)
         else (let lim = 1 / sqrt (real fan_in) in (Finite (- lim), Finite lim)))"

subsection \<open>Actor and Critic\<close>

text \<open>
  Both classes hold the same attributes, so one record serves both. The attribute
  \<^verbatim>\<open>seed\<close> is a reference to the process-wide generator, whose state is passed
  explicitly here. Methods return the outcome (an error or the value) together with the
  object as the call leaves it, and the generator state where they draw from it.
\<close>

record network =
  fc1 :: linear
  fc2 :: linear
  fc3 :: linear
  bn :: batchnorm

type_synonym actor = network
type_synonym critic = network

text \<open>\<^verbatim>\<open>layer.weight.data.uniform_(lo, hi)\<close>\<close>

definition reset_weight ::
  "'g generator \<Rightarrow> linear \<Rightarrow> bound \<times> bound \<Rightarrow> 'g \<Rightarrow> (error + linear) \<times> 'g" where
  "reset_weight G layer bnds g =
     (case uniform_inplace G (weight layer) (fst bnds) (snd bnds) g of
        (Inl e, g') \<Rightarrow> (Inl e, g')
      | (Inr w, g') \<Rightarrow> (Inr (layer\<lparr>weight := w\<rparr>), g'))"

definition Actor_reset_parameters ::
  "'g generator \<Rightarrow> actor \<Rightarrow> 'g \<Rightarrow> error option \<times> actor \<times> 'g" where
  "Actor_reset_parameters G self g =
     (case reset_weight G (fc1 self) (hidden_init (fc1 self)) g of
        (Inl e, g1) \<Rightarrow> (Some e, self, g1)
      | (Inr l1, g1) \<Rightarrow>
          (let self1 = self\<lparr>fc1 := l1\<rparr>
           in case reset_weight G (fc2 self1) (hidden_init (fc2 self1)) g1 of
                (Inl e, g2) \<Rightarrow> (Some e, self1, g2)
              | (Inr l2, g2) \<Rightarrow>
                  (let self2 = self1\<lparr>fc2 := l2\<rparr>
                   in case reset_weight G (fc3 self2)
                             (Finite (- (3 / 1000)), Finite (3 / 1000)) g2 of
                        (Inl e, g3) \<Rightarrow> (Some e, self2, g3)
                      | (Inr l3, g3) \<Rightarrow> (None, self2\<lparr>fc3 := l3\<rparr>, g3))))"

definition Actor_init ::
  "'g generator \<Rightarrow> nat \<Rightarrow> nat \<Rightarrow> nat \<Rightarrow> nat \<Rightarrow> int \<Rightarrow> 'g \<Rightarrow> (error + actor) \<times> 'g" where
  "Actor_init G input_dim hidden_in_dim hidden_out_dim output_dim seed g =
     (case manual_seed G seed g of
        (Inl e, g0) \<Rightarrow> (Inl e, g0)
      | (Inr u, g0) \<Rightarrow>
          (let (l1, g1) = nn_Linear G input_dim hidden_in_dim g0;
               (l2, g2) = nn_Linear G hidden_in_dim hidden_out_dim g1;
               (l3, g3) = nn_Linear G hidden_out_dim output_dim g2;
               self = \<lparr> fc1 = l1, fc2 = l2, fc3 = l3, bn = nn_BatchNorm1d hidden_in_dim \<rparr>
           in case Actor_reset_parameters G self g3 of
                (Some e, self', g4) \<Rightarrow> (Inl e, g4)
              | (None, self', g4) \<Rightarrow> (Inr self', g4)))"

definition Actor_forward :: "actor \<Rightarrow> tensor \<Rightarrow> (error + tensor) \<times> actor" where
  "Actor_forward self state =
     (let state = (case state of T1 xs \<Rightarrow> unsqueeze0 xs | T2 c rows \<Rightarrow> T2 c rows)
      in case linear_forward (fc1 self) state of
           Inl e \<Rightarrow> (Inl e, self)
         | Inr h1 \<Rightarrow>
             (case batch_norm_forward (bn self) (relu h1) of
                (Inl e, b) \<Rightarrow> (Inl e, self\<lparr>bn := b\<rparr>)
              | (Inr x, b) \<Rightarrow>
                  (let self' = self\<lparr>bn := b\<rparr>
                   in case linear_forward (fc2 self') x of
                        Inl e \<Rightarrow> (Inl e, self')
                      | Inr h2 \<Rightarrow>
                          (case linear_forward (fc3 self') (relu h2) of
                             Inl e \<Rightarrow> (Inl e, self')
                           | Inr h3 \<Rightarrow> (Inr (tanh_t h3), self')))))"

definition Critic_reset_parameters ::
  "'g generator \<Rightarrow> critic \<Rightarrow> 'g \<Rightarrow> error option \<times> critic \<times> 'g" where
  "Critic_reset_parameters G self g =
     (case reset_weight G (fc1 self) (hidden_init (fc1 self)) g of
        (Inl e, g1) \<Rightarrow> (Some e, self, g1)
      | (Inr l1, g1) \<Rightarrow>
          (let self1 = self\<lparr>fc1 := l1\<rparr>
           in case reset_weight G (fc2 self1) (hidden_init (fc2 self1)) g1 of
                (Inl e, g2) \<Rightarrow> (Some e, self1, g2)
              | (Inr l2, g2) \<Rightarrow>
                  (let self2 = self1\<lparr>fc2 := l2\<rparr>
                   in case reset_weight G (fc3 self2)
                             (Finite (- (3 / 1000)), Finite (3 / 1000)) g2 of
                        (Inl e, g3) \<Rightarrow> (Some e, self2, g3)
                      | (Inr l3, g3) \<Rightarrow> (None, self2\<lparr>fc3 := l3\<rparr>, g3))))"

definition Critic_init ::
  "'g generator \<Rightarrow> nat \<Rightarrow> nat \<Rightarrow> nat \<Rightarrow> int \<Rightarrow> 'g \<Rightarrow> (error + critic) \<times> 'g" where
  "Critic_init G input_dim hidden_in_dim hidden_out_dim seed g =
     (case manual_seed G seed g of
        (Inl e, g0) \<Rightarrow> (Inl e, g0)
      | (Inr u, g0) \<Rightarrow>
          (let (l1, g1) = nn_Linear G input_dim hidden_in_dim g0;
               (l2, g2) = nn_Linear G hidden_in_dim hidden_out_dim g1;
               (l3, g3) = nn_Linear G hidden_out_dim 1 g2;
               self = \<lparr> fc1 = l1, fc2 = l2, fc3 = l3, bn = nn_BatchNorm1d hidden_in_dim \<rparr>
           in case Critic_reset_parameters G self g3 of
                (Some e, self', g4) \<Rightarrow> (Inl e, g4)
              | (None, self', g4) \<Rightarrow> (Inr self', g4)))"

definition Critic_forward :: "critic \<Rightarrow> tensor \<Rightarrow> tensor \<Rightarrow> (error + tensor) \<times> critic" where
  "Critic_forward self state action =
     (case cat_dim1 state action of
        Inl e \<Rightarrow> (Inl e, self)
      | Inr xs \<Rightarrow>
          (case linear_forward (fc1 self) xs of
             Inl e \<Rightarrow> (Inl e, self)
           | Inr h1 \<Rightarrow>
               (case batch_norm_forward (bn self) (relu h1) of
                  (Inl e, b) \<Rightarrow> (Inl e, self\<lparr>bn := b\<rparr>)
                | (Inr x, b) \<Rightarrow>
                    (let self' = self\<lparr>bn := b\<rparr>
                     in case linear_forward (fc2 self') x of
                          Inl e \<Rightarrow> (Inl e, self')
                        | Inr h2 \<Rightarrow>
                            (case linear_forward (fc3 self') (relu h2) of
                               Inl e \<Rightarrow> (Inl e, self')
                             | Inr h3 \<Rightarrow> (Inr h3, self'))))))"

subsection \<open>Actor_Critics\<close>

text \<open>
  \<^verbatim>\<open>.to(device)\<close> moves a network to the selected device and leaves its shapes and
  values as they are; the device is not part of the embedding.
\<close>

record actor_critics =
  actor_local :: actor
  actor_target :: actor
  critic_local :: critic
  critic_target :: critic

definition Actor_Critics_init ::
  "'g generator \<Rightarrow> nat \<Rightarrow> nat \<Rightarrow> nat \<Rightarrow> nat \<Rightarrow> nat \<Rightarrow> int \<Rightarrow> 'g
     \<Rightarrow> (error + actor_critics) \<times> 'g" where
  "Actor_Critics_init G n_agents state_size action_size hidden_in_dim hidden_out_dim seed g =
     (case Actor_init G state_size hidden_in_dim hidden_out_dim action_size seed g of
        (Inl e, g1) \<Rightarrow> (Inl e, g1)
      | (Inr al, g1) \<Rightarrow>
     (case Actor_init G state_size hidden_in_dim hidden_out_dim action_size seed g1 of
        (Inl e, g2) \<Rightarrow> (Inl e, g2)
      | (Inr atg, g2) \<Rightarrow>
     (let critic_input_size = (state_size + action_size) * n_agents
      in case Critic_init G critic_input_size hidden_in_dim hidden_out_dim seed g2 of
           (Inl e, g3) \<Rightarrow> (Inl e, g3)
         | (Inr cl, g3) \<Rightarrow>
     (case Critic_init G critic_input_size hidden_in_dim hidden_out_dim seed g3 of
        (Inl e, g4) \<Rightarrow> (Inl e, g4)
      | (Inr ct, g4) \<Rightarrow>
          (Inr \<lparr> actor_local = al, actor_target = atg,
                critic_local = cl, critic_target = ct \<rparr>, g4)))))"

text \<open>The defaults of the constructor: two hidden widths of 256 and the seed 0.\<close>

definition Actor_Critics_default ::
  "'g generator \<Rightarrow> nat \<Rightarrow> nat \<Rightarrow> nat \<Rightarrow> 'g \<Rightarrow> (error + actor_critics) \<times> 'g" where
  "Actor_Critics_default G n_agents state_size action_size g =
     Actor_Critics_init G n_agents state_size action_size 256 256 0 g"

section \<open>Notions used in the statements\<close>

text \<open>
  The network as the constructor allocates it, before \<open>reset_parameters\<close> runs, with the
  generator state at that point.
\<close>

definition allocated ::
  "'g generator \<Rightarrow> nat \<Rightarrow> nat \<Rightarrow> nat \<Rightarrow> nat \<Rightarrow> int \<Rightarrow> network \<times> 'g" where
  "allocated G input_dim hidden_in_dim hidden_out_dim output_dim seed =
     (let (l1, g1) = nn_Linear G input_dim hidden_in_dim (seed_state G seed);
          (l2, g2) = nn_Linear G hidden_in_dim hidden_out_dim g1;
          (l3, g3) = nn_Linear G hidden_out_dim output_dim g2
      in (\<lparr> fc1 = l1, fc2 = l2, fc3 = l3, bn = nn_BatchNorm1d hidden_in_dim \<rparr>, g3))"

text \<open>
  Shapes that fit together: a layer from \<open>n_in\<close> to \<open>n_out\<close> values, the statistics of
  a normalisation over \<open>c\<close> columns (with a positive \<open>eps\<close> and variances that are not
  negative, so that the square root is the one floating point takes), a network from
  \<open>i\<close> over \<open>h1\<close> and \<open>h2\<close> to \<open>k\<close> values, a batch of \<open>n\<close> rows of \<open>c\<close> values.
\<close>

definition wf_linear :: "nat \<Rightarrow> nat \<Rightarrow> linear \<Rightarrow> bool" where
  "wf_linear n_in n_out l \<longleftrightarrow>
     size_of (weight l) = [n_out, n_in] \<and> wf_tensor (weight l) \<and> size_of (bias l) = [n_out]"

definition wf_batchnorm :: "nat \<Rightarrow> batchnorm \<Rightarrow> bool" where
  "wf_batchnorm c b \<longleftrightarrow>
     length (running_mean b) = c \<and> length (running_var b) = c
     \<and> length (bn_weight b) = c \<and> length (bn_bias b) = c
     \<and> 0 < eps b \<and> list_all (\<lambda>v. 0 \<le> v) (running_var b)"

definition wf_network :: "nat \<Rightarrow> nat \<Rightarrow> nat \<Rightarrow> nat \<Rightarrow> network \<Rightarrow> bool" where
  "wf_network i h1 h2 k a \<longleftrightarrow>
     wf_linear i h1 (fc1 a) \<and> wf_linear h1 h2 (fc2 a) \<and> wf_linear h2 k (fc3 a)
     \<and> wf_batchnorm h1 (bn a)"

definition batch_of :: "nat \<Rightarrow> nat \<Rightarrow> tensor \<Rightarrow> bool" where
  "batch_of n c t \<longleftrightarrow> size_of t = [n, c] \<and> wf_tensor t"

text \<open>The ranges that \<open>reset_parameters\<close> draws from.\<close>

definition weights_within :: "real \<Rightarrow> linear \<Rightarrow> bool" where
  "weights_within r l \<longleftrightarrow> list_all (\<lambda>w. - r \<le> w \<and> w \<le> r) (entries (weight l))"

definition initialised :: "network \<Rightarrow> bool" where
  "initialised a \<longleftrightarrow>
     weights_within (1 / sqrt (real (hd (size_of (weight (fc1 a)))))) (fc1 a)
     \<and> weights_within (1 / sqrt (real (hd (size_of (weight (fc2 a)))))) (fc2 a)
     \<and> weights_within (3 / 1000) (fc3 a)"

text \<open>A generator to run the definitions on: it counts, and samples the tenths.\<close>

definition counting_generator :: "nat generator" where
  "counting_generator =
     \<lparr> seed_state = (\<lambda>s. nat \<bar>s\<bar>),
       fill = (\<lambda>g n. (map (\<lambda>k. real ((g + k) mod 10) / 10) [0..<n], g + n)) \<rparr>"

text \<open>
  A small network, two inputs, two hidden widths of two and one output, in the state a
  constructor leaves it in: training mode, fresh statistics, weights within the ranges of
  \<open>reset_parameters\<close>. It serves as an Actor and as a Critic.
\<close>

definition example_network :: network where
  "example_network =
     \<lparr> fc1 = \<lparr> in_features = 2, out_features = 2,
               weight = T2 2 [[1 / 2, 0], [0, 1 / 2]], bias = T1 [0, 0] \<rparr>,
       fc2 = \<lparr> in_features = 2, out_features = 2,
               weight = T2 2 [[1 / 2, 1 / 4], [- (1 / 4), 1 / 2]], bias = T1 [0, 0] \<rparr>,
       fc3 = \<lparr> in_features = 2, out_features = 1,
               weight = T2 2 [[1 / 1000, - (1 / 1000)]], bias = T1 [0] \<rparr>,
       bn = nn_BatchNorm1d 2 \<rparr>"

text \<open>\<^verbatim>\<open>net.eval()\<close>, the library's switch to evaluation mode.\<close>

definition eval_mode :: "network \<Rightarrow> network" where
  "eval_mode a = a\<lparr>bn := (bn a)\<lparr>training := False\<rparr>\<rparr>"

text \<open>A Critic whose last layer has the weights 0 and the bias \<open>v\<close>.\<close>

definition constant_critic :: "real \<Rightarrow> critic" where
  "constant_critic v =
     (eval_mode example_network)
       \<lparr>fc3 := \<lparr> in_features = 2, out_features = 1, weight = T2 2 [[0, 0]], bias = T1 [v] \<rparr>\<rparr>"

text \<open>
  The embedding computes with real numbers, a float32 computation with rounded ones, and the
  two part ways when an intermediate quantity leaves the float32 range: the library then goes
  on with an infinity, and an infinity minus an infinity is NaN. The following predicates say
  that this does not happen. They bound, by a limit below the largest float32 (about
  \<open>3.4 * 10 ^ 38\<close>) that leaves room for rounding, the magnitude of everything a layer and the
  normalisation stage add up or multiply: for a layer the sum of the magnitudes of the
  products and of the bias, whatever the order of summation; for the normalisation the sums
  behind the mean and the variance, the scale \<open>weight / sqrt (var + eps)\<close> and the inverse
  deviation, and the output in either of the forms \<open>(x - mean) * invstd * weight + bias\<close> and
  \<open>x * alpha + (bias - mean * alpha)\<close>; and the running statistics and their update.
\<close>

definition float_limit :: real where
  "float_limit = 10 ^ 38"

fun rows_of :: "tensor \<Rightarrow> real list list" where
  "rows_of (T1 xs) = [xs]"
| "rows_of (T2 c rows) = rows"

definition within_limit :: "tensor \<Rightarrow> bool" where
  "within_limit t \<longleftrightarrow> list_all (\<lambda>v. \<bar>v\<bar> \<le> float_limit) (entries t)"

definition affine_fits :: "real list list \<Rightarrow> real list \<Rightarrow> real list \<Rightarrow> bool" where
  "affine_fits wrows bs x \<longleftrightarrow>
     list_all (\<lambda>(w, b). sum_list (map2 (\<lambda>u v. \<bar>u * v\<bar>) w x) + \<bar>b\<bar> \<le> float_limit)
       (zip wrows bs)"

definition linear_fits :: "linear \<Rightarrow> tensor \<Rightarrow> bool" where
  "linear_fits l x \<longleftrightarrow>
     (case weight l of
        T1 ws \<Rightarrow> True
      | T2 k wrows \<Rightarrow>
          (case bias l of
             T2 c brows \<Rightarrow> True
           | T1 bs \<Rightarrow> list_all (affine_fits wrows bs) (rows_of x)))"

definition vmax :: "nat \<Rightarrow> real list list \<Rightarrow> real list" where
  "vmax c rows = foldr (map2 max) rows (replicate c 0)"

definition normalize_fits ::
  "real \<Rightarrow> real list \<Rightarrow> real list \<Rightarrow> real list \<Rightarrow> real list \<Rightarrow> real list \<Rightarrow> bool" where
  "normalize_fits e mu var w b r \<longleftrightarrow>
     list_all (\<lambda>(x, m, v, g, h).
         0 < v + e \<and> max 1 \<bar>g\<bar> / sqrt (v + e) \<le> float_limit
       \<and> (\<bar>x\<bar> + \<bar>m\<bar>) * (max 1 \<bar>g\<bar> / sqrt (v + e)) + \<bar>h\<bar> \<le> float_limit)
       (zip r (zip mu (zip var (zip w b))))"

definition batch_norm_fits :: "batchnorm \<Rightarrow> tensor \<Rightarrow> bool" where
  "batch_norm_fits b x \<longleftrightarrow>
     (case x of
        T1 xs \<Rightarrow> True
      | T2 c rows \<Rightarrow>
          0 \<le> momentum b \<and> momentum b \<le> 1
        \<and> list_all (\<lambda>v. \<bar>v\<bar> \<le> float_limit) (running_mean b)
        \<and> list_all (\<lambda>v. \<bar>v\<bar> \<le> float_limit) (running_var b)
        \<and> (if training b then
              list_all (\<lambda>m. real (length rows) * m \<le> float_limit
                           \<and> real (length rows) * (2 * m) ^ 2 \<le> float_limit)
                (vmax c (map (map abs) rows))
            \<and> list_all (normalize_fits (eps b) (batch_mean c rows) (batch_var c rows)
                          (bn_weight b) (bn_bias b)) rows
            else list_all (normalize_fits (eps b) (running_mean b) (running_var b)
                             (bn_weight b) (bn_bias b)) rows))"

text \<open>The bounds along \<open>Actor.forward\<close>, each one stated for the tensor that reaches the step.\<close>

definition Actor_forward_fits :: "actor \<Rightarrow> tensor \<Rightarrow> bool" where
  "Actor_forward_fits self state \<longleftrightarrow>
     (let state = (case state of T1 xs \<Rightarrow> unsqueeze0 xs | T2 c rows \<Rightarrow> T2 c rows)
      in within_limit state \<and> linear_fits (fc1 self) state
       \<and> (case linear_forward (fc1 self) state of
             Inl e \<Rightarrow> True
           | Inr h1 \<Rightarrow>
               batch_norm_fits (bn self) (relu h1)
             \<and> (case batch_norm_forward (bn self) (relu h1) of
                   (Inl e, b) \<Rightarrow> True
                 | (Inr x, b) \<Rightarrow>
                     linear_fits (fc2 self) x
                   \<and> (case linear_forward (fc2 self) x of
                         Inl e \<Rightarrow> True
                       | Inr h2 \<Rightarrow> linear_fits (fc3 self) (relu h2)))))"

text \<open>A batch of two rows for \<open>example_network\<close> on which every value is a fraction.\<close>

definition example_batch :: tensor where
  "example_batch = T2 2 [[0, 0], [9 / 500, 9 / 500]]"

section \<open>Properties\<close>

subsection \<open>Auxiliary facts\<close>

lemma sqrt_256: "sqrt 256 = 16"
  by (rule real_sqrt_unique) simp_all

lemma length_chop: "length (chop r c xs) = r"
  by (induction r c xs rule: chop.induct) simp_all

lemma set_concat_chop: "set (concat (chop r c xs)) \<subseteq> set xs"
proof (induction r c xs rule: chop.induct)
  case (1 c xs)
  then show ?case by simp
next
  case (2 r c xs)
  have "set (take c xs) \<subseteq> set xs" by (rule set_take_subset)
  moreover have "set (drop c xs) \<subseteq> set xs" by (rule set_drop_subset)
  ultimately show ?case using 2 by auto
qed

lemma chop_rows: "r * c \<le> length xs \<Longrightarrow> list_all (\<lambda>row. length row = c) (chop r c xs)"
proof (induction r c xs rule: chop.induct)
  case (1 c xs)
  then show ?case by simp
next
  case (2 r c xs)
  then show ?case by (simp add: min_def)
qed

lemma size_of_reshape_like:
  "numel t \<le> length vs \<Longrightarrow> size_of (reshape_like t vs) = size_of t"
  by (cases t) (simp_all add: length_chop)

lemma hd_size_of_reshape_like:
  "ndim t = 2 \<Longrightarrow> size_of (reshape_like t vs) = size_of t"
  by (cases t) (simp_all add: length_chop)

lemma entries_reshape_like: "set (entries (reshape_like t vs)) \<subseteq> set vs"
proof (cases t)
  case (T1 xs)
  then show ?thesis using set_take_subset [of "length xs" vs] by simp
next
  case (T2 c rows)
  then show ?thesis using set_concat_chop [of "length rows" c vs] by simp
qed

lemma wf_reshape_like: "numel t \<le> length vs \<Longrightarrow> wf_tensor (reshape_like t vs)"
  by (cases t) (simp_all add: chop_rows)

lemma scale_unit:
  fixes lo hi u :: real
  assumes "lo \<le> hi" "0 \<le> u" "u < 1"
  shows "lo \<le> lo + (hi - lo) * u" and "lo + (hi - lo) * u \<le> hi"
proof -
  show "lo \<le> lo + (hi - lo) * u" using assms by simp
  have "(hi - lo) * u \<le> (hi - lo) * 1"
    using assms by (intro mult_left_mono) simp_all
  then show "lo + (hi - lo) * u \<le> hi" by simp
qed

lemma uniform_inplace_Finite:
  "uniform_inplace G t (Finite a) (Finite b) g =
     (if a \<le> b
      then (Inr (reshape_like t (map (\<lambda>u. a + (b - a) * u) (fst (fill G g (numel t))))),
            snd (fill G g (numel t)))
      else (Inl BoundOutOfRange, g))"
  by (simp add: Let_def case_prod_beta)

lemma uniform_inplace_Inr:
  assumes "uniform_inplace G t lo hi g = (Inr t', g')"
  obtains a b where "lo = Finite a" "hi = Finite b" "a \<le> b"
    "t' = reshape_like t (map (\<lambda>u. a + (b - a) * u) (fst (fill G g (numel t))))"
    "g' = snd (fill G g (numel t))"
proof (cases lo)
  case NegInf
  with assms show ?thesis by simp
next
  case PosInf
  with assms show ?thesis by simp
next
  case lo: (Finite a)
  show ?thesis
  proof (cases hi)
    case NegInf
    with assms lo show ?thesis by simp
  next
    case PosInf
    with assms lo show ?thesis by simp
  next
    case (Finite b)
    with assms lo that [of a b] show ?thesis
      by (simp add: uniform_inplace_Finite del: uniform_inplace.simps split: if_splits)
  qed
qed

lemma uniform_inplace_range:
  assumes "wf_generator G" and "uniform_inplace G t (Finite a) (Finite b) g = (Inr t', g')"
  shows "list_all (\<lambda>w. a \<le> w \<and> w \<le> b) (entries t')"
  unfolding list_all_iff
proof
  fix w assume w: "w \<in> set (entries t')"
  from assms(2) have "a \<le> b"
    and t': "t' = reshape_like t (map (\<lambda>u. a + (b - a) * u) (fst (fill G g (numel t))))"
    by (simp_all add: uniform_inplace_Finite del: uniform_inplace.simps split: if_splits)
  from w t' entries_reshape_like obtain u where u: "u \<in> set (fst (fill G g (numel t)))"
    and wu: "w = a + (b - a) * u" by fastforce
  from assms(1) u have "0 \<le> u" "u < 1" by (auto simp: wf_generator_def list_all_iff)
  with \<open>a \<le> b\<close> show "a \<le> w \<and> w \<le> b" unfolding wu using scale_unit by blast
qed

lemma uniform_inplace_size:
  assumes "uniform_inplace G t lo hi g = (Inr t', g')" and "ndim t = 2"
  shows "size_of t' = size_of t"
  using assms(1)
proof (rule uniform_inplace_Inr)
  fix a b
  assume "t' = reshape_like t (map (\<lambda>u. a + (b - a) * u) (fst (fill G g (numel t))))"
  with assms(2) show ?thesis by (simp add: hd_size_of_reshape_like)
qed

lemma uniform_inplace_wf:
  assumes "wf_generator G" and "uniform_inplace G t lo hi g = (Inr t', g')"
  shows "wf_tensor t' \<and> size_of t' = size_of t"
  using assms(2)
proof (rule uniform_inplace_Inr)
  fix a b
  assume "t' = reshape_like t (map (\<lambda>u. a + (b - a) * u) (fst (fill G g (numel t))))"
  with assms(1) show ?thesis
    by (simp add: wf_generator_def wf_reshape_like size_of_reshape_like)
qed

lemma reset_weight_Inr:
  assumes "reset_weight G l bnds g = (Inr l', g')"
  shows "uniform_inplace G (weight l) (fst bnds) (snd bnds) g = (Inr (weight l'), g')
       \<and> l' = l\<lparr>weight := weight l'\<rparr>"
  using assms by (auto simp: reset_weight_def split: prod.splits sum.splits)

lemma reset_weight_size:
  assumes "reset_weight G l bnds g = (Inr l', g')" and "ndim (weight l) = 2"
  shows "size_of (weight l') = size_of (weight l)"
  using reset_weight_Inr [OF assms(1), THEN conjunct1] assms(2)
  by (rule uniform_inplace_size)

lemma reset_weight_frame:
  assumes "reset_weight G l bnds g = (Inr l', g')"
  shows "bias l' = bias l \<and> in_features l' = in_features l \<and> out_features l' = out_features l"
  using assms by (auto simp: reset_weight_def split: prod.splits sum.splits)

lemma reset_weight_succeeds:
  assumes "a \<le> b"
  shows "\<exists>l' g'. reset_weight G l (Finite a, Finite b) g = (Inr l', g')"
  using assms by (simp add: reset_weight_def uniform_inplace_Finite del: uniform_inplace.simps)

lemma Actor_reset_parameters_None:
  assumes "Actor_reset_parameters G a g = (None, a', g')"
  obtains l1 l2 l3 g1 g2 where
    "reset_weight G (fc1 a) (hidden_init (fc1 a)) g = (Inr l1, g1)"
    "reset_weight G (fc2 a) (hidden_init (fc2 a)) g1 = (Inr l2, g2)"
    "reset_weight G (fc3 a) (Finite (- (3 / 1000)), Finite (3 / 1000)) g2 = (Inr l3, g')"
    "a' = a\<lparr>fc1 := l1, fc2 := l2, fc3 := l3\<rparr>"
  using assms
  by (auto simp: Actor_reset_parameters_def Let_def split: prod.splits sum.splits)

lemma Actor_reset_parameters_frame:
  "bn (fst (snd (Actor_reset_parameters G a g))) = bn a
   \<and> bias (fc1 (fst (snd (Actor_reset_parameters G a g)))) = bias (fc1 a)
   \<and> bias (fc2 (fst (snd (Actor_reset_parameters G a g)))) = bias (fc2 a)
   \<and> bias (fc3 (fst (snd (Actor_reset_parameters G a g)))) = bias (fc3 a)"
  by (auto simp: Actor_reset_parameters_def Let_def split: prod.splits sum.splits
      dest: reset_weight_frame)

lemma Critic_is_Actor_reset: "Critic_reset_parameters = Actor_reset_parameters"
  by (intro ext) (simp add: Critic_reset_parameters_def Actor_reset_parameters_def)

lemma nn_Linear_fields:
  "in_features (fst (nn_Linear G i n g)) = i"
  "out_features (fst (nn_Linear G i n g)) = n"
  "size_of (weight (fst (nn_Linear G i n g))) = [n, i]"
  by (simp_all add: nn_Linear_def Let_def case_prod_beta length_chop)

lemma hidden_init_Finite:
  assumes "0 < hd (size_of (weight l))"
  shows "hidden_init l = (Finite (- (1 / sqrt (real (hd (size_of (weight l)))))),
                          Finite (1 / sqrt (real (hd (size_of (weight l))))))"
  using assms by (simp add: hidden_init_def Let_def)

lemma reset_hidden_succeeds:
  assumes "0 < hd (size_of (weight l))"
  shows "\<exists>l' g'. reset_weight G l (hidden_init l) g = (Inr l', g')"
proof -
  have "- (1 / sqrt (real (hd (size_of (weight l))))) \<le> 1 / sqrt (real (hd (size_of (weight l))))"
    by simp
  then show ?thesis
    unfolding hidden_init_Finite [OF assms] by (rule reset_weight_succeeds)
qed

lemma Actor_reset_parameters_succeeds:
  assumes "0 < hd (size_of (weight (fc1 a)))" and "0 < hd (size_of (weight (fc2 a)))"
  shows "\<exists>a' g'. Actor_reset_parameters G a g = (None, a', g')"
proof -
  from reset_hidden_succeeds [OF assms(1), of G g] obtain l1 g1
    where 1: "reset_weight G (fc1 a) (hidden_init (fc1 a)) g = (Inr l1, g1)" by blast
  from reset_hidden_succeeds [OF assms(2), of G g1] obtain l2 g2
    where 2: "reset_weight G (fc2 a) (hidden_init (fc2 a)) g1 = (Inr l2, g2)" by blast
  have "- (3 / 1000) \<le> (3 / 1000 :: real)" by simp
  from reset_weight_succeeds [OF this, of G "fc3 a" g2] obtain l3 g3
    where 3: "reset_weight G (fc3 a) (Finite (- (3 / 1000)), Finite (3 / 1000)) g2 = (Inr l3, g3)"
    by blast
  from 1 2 3 show ?thesis by (simp add: Actor_reset_parameters_def)
qed

lemma Actor_init_eq:
  "Actor_init G i h1 h2 k s g =
     (if seed_ok s then
        (case Actor_reset_parameters G (fst (allocated G i h1 h2 k s)) (snd (allocated G i h1 h2 k s)) of
           (Some e, self', g4) \<Rightarrow> (Inl e, g4)
         | (None, self', g4) \<Rightarrow> (Inr self', g4))
      else (Inl SeedOutOfRange, g))"
  by (simp add: Actor_init_def manual_seed_def seed_ok_def allocated_def Let_def case_prod_beta)

lemma Critic_init_eq_Actor_init:
  "Critic_init G i h1 h2 s g = Actor_init G i h1 h2 1 s g"
  unfolding Critic_init_def Actor_init_def Critic_is_Actor_reset by (rule refl)

lemma allocated_fields:
  "in_features (fc1 (fst (allocated G i h1 h2 k s))) = i"
  "out_features (fc1 (fst (allocated G i h1 h2 k s))) = h1"
  "size_of (weight (fc1 (fst (allocated G i h1 h2 k s)))) = [h1, i]"
  "in_features (fc2 (fst (allocated G i h1 h2 k s))) = h1"
  "out_features (fc2 (fst (allocated G i h1 h2 k s))) = h2"
  "size_of (weight (fc2 (fst (allocated G i h1 h2 k s)))) = [h2, h1]"
  "in_features (fc3 (fst (allocated G i h1 h2 k s))) = h2"
  "out_features (fc3 (fst (allocated G i h1 h2 k s))) = k"
  "size_of (weight (fc3 (fst (allocated G i h1 h2 k s)))) = [k, h2]"
  "bn (fst (allocated G i h1 h2 k s)) = nn_BatchNorm1d h1"
  by (simp_all add: allocated_def Let_def case_prod_beta nn_Linear_fields)

lemma Actor_init_Inr:
  assumes "Actor_init G i h1 h2 k s g = (Inr a, g')"
  shows "seed_ok s
    \<and> Actor_reset_parameters G (fst (allocated G i h1 h2 k s)) (snd (allocated G i h1 h2 k s))
        = (None, a, g')"
  using assms unfolding Actor_init_eq
  by (auto split: if_splits prod.splits option.splits)

lemma Actor_init_succeeds:
  assumes "seed_ok s" and "0 < h1" and "0 < h2"
  shows "\<exists>a g'. Actor_init G i h1 h2 k s g = (Inr a, g')"
proof -
  from assms(2,3) Actor_reset_parameters_succeeds
    [of "fst (allocated G i h1 h2 k s)" G "snd (allocated G i h1 h2 k s)"]
  obtain a g' where
    "Actor_reset_parameters G (fst (allocated G i h1 h2 k s)) (snd (allocated G i h1 h2 k s))
       = (None, a, g')"
    by (auto simp: allocated_fields)
  with assms(1) show ?thesis by (simp add: Actor_init_eq)
qed

lemma Actor_init_deterministic:
  "fst (Actor_init G i h1 h2 k s g) = fst (Actor_init G i h1 h2 k s g')"
  by (simp add: Actor_init_eq split: prod.splits option.splits)

lemma Actor_reset_parameters_shape:
  assumes "Actor_reset_parameters G a g = (None, a', g')"
    and "ndim (weight (fc1 a)) = 2" "ndim (weight (fc2 a)) = 2" "ndim (weight (fc3 a)) = 2"
  shows "size_of (weight (fc1 a')) = size_of (weight (fc1 a))
       \<and> size_of (weight (fc2 a')) = size_of (weight (fc2 a))
       \<and> size_of (weight (fc3 a')) = size_of (weight (fc3 a))
       \<and> in_features (fc1 a') = in_features (fc1 a) \<and> out_features (fc1 a') = out_features (fc1 a)
       \<and> in_features (fc2 a') = in_features (fc2 a) \<and> out_features (fc2 a') = out_features (fc2 a)
       \<and> in_features (fc3 a') = in_features (fc3 a) \<and> out_features (fc3 a') = out_features (fc3 a)"
  using assms(1)
proof (rule Actor_reset_parameters_None)
  fix l1 l2 l3 g1 g2
  assume 1: "reset_weight G (fc1 a) (hidden_init (fc1 a)) g = (Inr l1, g1)"
    and 2: "reset_weight G (fc2 a) (hidden_init (fc2 a)) g1 = (Inr l2, g2)"
    and 3: "reset_weight G (fc3 a) (Finite (- (3 / 1000)), Finite (3 / 1000)) g2 = (Inr l3, g')"
    and a': "a' = a\<lparr>fc1 := l1, fc2 := l2, fc3 := l3\<rparr>"
  have "size_of (weight l1) = size_of (weight (fc1 a))"
    using 1 assms(2) by (rule reset_weight_size)
  moreover have "size_of (weight l2) = size_of (weight (fc2 a))"
    using 2 assms(3) by (rule reset_weight_size)
  moreover have "size_of (weight l3) = size_of (weight (fc3 a))"
    using 3 assms(4) by (rule reset_weight_size)
  ultimately show ?thesis
    using reset_weight_frame [OF 1] reset_weight_frame [OF 2] reset_weight_frame [OF 3] a'
    by simp
qed

lemma wf_counting_generator: "wf_generator counting_generator"
  by (simp add: wf_generator_def counting_generator_def list_all_iff)

lemma reset_weight_within:
  assumes "wf_generator G" and "reset_weight G l (Finite (- r), Finite r) g = (Inr l', g')"
  shows "weights_within r l' \<and> size_of (weight l') = size_of (weight l)"
proof -
  from reset_weight_Inr [OF assms(2)]
  have u: "uniform_inplace G (weight l) (Finite (- r)) (Finite r) g = (Inr (weight l'), g')"
    by simp
  from uniform_inplace_range [OF assms(1) u] uniform_inplace_wf [OF assms(1) u]
  show ?thesis by (simp add: weights_within_def)
qed

lemma hidden_init_cases:
  "hidden_init l = (NegInf, PosInf) \<and> hd (size_of (weight l)) = 0
   \<or> hidden_init l = (Finite (- (1 / sqrt (real (hd (size_of (weight l)))))),
                      Finite (1 / sqrt (real (hd (size_of (weight l))))))"
  by (simp add: hidden_init_def Let_def)

lemma reset_weight_Inf: "reset_weight G l (NegInf, PosInf) g = (Inl BoundOutOfRange, g)"
  by (simp add: reset_weight_def)

lemma reset_hidden_within:
  assumes "wf_generator G" and "reset_weight G l (hidden_init l) g = (Inr l', g')"
  shows "weights_within (1 / sqrt (real (hd (size_of (weight l'))))) l'"
proof -
  from hidden_init_cases [of l] assms(2)
  have "reset_weight G l (Finite (- (1 / sqrt (real (hd (size_of (weight l)))))),
                          Finite (1 / sqrt (real (hd (size_of (weight l)))))) g = (Inr l', g')"
    by (auto simp: reset_weight_Inf)
  from reset_weight_within [OF assms(1) this] show ?thesis by simp
qed

lemma Actor_reset_parameters_initialised:
  assumes "wf_generator G" and "Actor_reset_parameters G a g = (None, a', g')"
  shows "initialised a'"
  using assms(2)
proof (rule Actor_reset_parameters_None)
  fix l1 l2 l3 g1 g2
  assume 1: "reset_weight G (fc1 a) (hidden_init (fc1 a)) g = (Inr l1, g1)"
    and 2: "reset_weight G (fc2 a) (hidden_init (fc2 a)) g1 = (Inr l2, g2)"
    and 3: "reset_weight G (fc3 a) (Finite (- (3 / 1000)), Finite (3 / 1000)) g2 = (Inr l3, g')"
    and a': "a' = a\<lparr>fc1 := l1, fc2 := l2, fc3 := l3\<rparr>"
  from reset_hidden_within [OF assms(1) 1] reset_hidden_within [OF assms(1) 2]
    reset_weight_within [OF assms(1) 3] a'
  show ?thesis by (simp add: initialised_def)
qed

lemma batch_ofE:
  assumes "batch_of n c t"
  obtains rows where "t = T2 c rows" "length rows = n" "list_all (\<lambda>r. length r = c) rows"
  using assms by (cases t) (auto simp: batch_of_def)

lemma batch_of_T2 [simp]:
  "batch_of n c (T2 c' rows) \<longleftrightarrow> c' = c \<and> length rows = n \<and> list_all (\<lambda>r. length r = c) rows"
  by (auto simp: batch_of_def)

lemma wf_linearE:
  assumes "wf_linear i k l"
  obtains wrows bs where "weight l = T2 i wrows" "bias l = T1 bs" "length wrows = k" "length bs = k"
  using assms by (cases "weight l"; cases "bias l") (auto simp: wf_linear_def)

lemma length_affine: "length bs = length wrows \<Longrightarrow> length (affine wrows bs x) = length wrows"
  by (simp add: affine_def)

lemma linear_forward_batch:
  assumes "wf_linear i k l" and "batch_of n i x"
  shows "\<exists>y. linear_forward l x = Inr y \<and> batch_of n k y"
proof -
  from assms(1) obtain wrows bs where l: "weight l = T2 i wrows" "bias l = T1 bs"
    "length wrows = k" "length bs = k" by (rule wf_linearE)
  from assms(2) obtain rows where x: "x = T2 i rows" "length rows = n" by (rule batch_ofE)
  from l x have "linear_forward l x = Inr (T2 k (map (affine wrows bs) rows))"
    by (simp add: linear_forward_def)
  moreover from l x have "batch_of n k (T2 k (map (affine wrows bs) rows))"
    by (simp add: list_all_iff length_affine)
  ultimately show ?thesis by blast
qed

lemma linear_forward_mismatch:
  assumes "size_of (weight l) = [m, i]" and "last (size_of x) \<noteq> i"
  shows "linear_forward l x = Inl DimensionMismatch"
  using assms by (cases "weight l"; cases "bias l"; cases x) (auto simp: linear_forward_def)

lemma relu_batch: "batch_of n c x \<Longrightarrow> batch_of n c (relu x)"
  by (erule batch_ofE) (simp add: relu_def list_all_iff)

lemma length_vsum:
  "list_all (\<lambda>r. length r = c) rows \<Longrightarrow> length (vsum c rows) = c"
  by (induction rows) (simp_all add: vsum_def)

lemma length_normalize_row:
  assumes "length r = c" "length mu = c" "length var = c" "length w = c" "length b = c"
  shows "length (normalize_row e mu var w b r) = c"
  using assms by (simp add: normalize_row_def)

lemma batch_norm_forward_single:
  assumes "training b" and "size_of x = [1, c]"
  shows "batch_norm_forward b x
         = (Inl SingleValuePerChannel, b\<lparr>num_batches_tracked := num_batches_tracked b + 1\<rparr>)"
  using assms by (cases x) (simp_all add: batch_norm_forward_def)

lemma batch_norm_forward_eval:
  assumes "\<not> training b" and "wf_batchnorm c b" and "batch_of n c x"
  shows "\<exists>y. batch_norm_forward b x = (Inr y, b) \<and> batch_of n c y"
proof -
  from assms(3) obtain rows where x: "x = T2 c rows" "length rows = n"
    "list_all (\<lambda>r. length r = c) rows" by (rule batch_ofE)
  show ?thesis
  proof (cases "n = 0")
    case True
    with x assms(1) show ?thesis by (simp add: batch_norm_forward_def)
  next
    case False
    with x assms(1,2) show ?thesis
      by (auto simp: batch_norm_forward_def wf_batchnorm_def list_all_iff length_normalize_row)
  qed
qed

lemma batch_norm_forward_train:
  assumes "training b" and "wf_batchnorm c b" and "batch_of n c x" and "n \<noteq> 1"
  shows "\<exists>y b'. batch_norm_forward b x = (Inr y, b') \<and> batch_of n c y \<and> training b'"
proof -
  from assms(3) obtain rows where x: "x = T2 c rows" "length rows = n"
    "list_all (\<lambda>r. length r = c) rows" by (rule batch_ofE)
  show ?thesis
  proof (cases "n = 0")
    case True
    with x assms(1) show ?thesis by (simp add: batch_norm_forward_def)
  next
    case False
    have "length (batch_mean c rows) = c" "length (batch_var c rows) = c"
      using x(3) by (simp_all add: batch_mean_def batch_var_def Let_def length_vsum list_all_iff)
    with False x assms(1,2,4) show ?thesis
      by (simp add: batch_norm_forward_def Let_def wf_batchnorm_def list_all_iff
          length_normalize_row)
  qed
qed

lemma size_of_ndim2: "size_of t = [a, b] \<Longrightarrow> ndim t = 2"
  by (cases t) simp_all

lemma Actor_init_shape:
  assumes "Actor_init G i h1 h2 k s g = (Inr a, g')"
  shows "size_of (weight (fc1 a)) = [h1, i] \<and> size_of (weight (fc2 a)) = [h2, h1]
       \<and> size_of (weight (fc3 a)) = [k, h2]
       \<and> in_features (fc1 a) = i \<and> out_features (fc1 a) = h1
       \<and> in_features (fc2 a) = h1 \<and> out_features (fc2 a) = h2
       \<and> in_features (fc3 a) = h2 \<and> out_features (fc3 a) = k"
proof -
  let ?a0 = "fst (allocated G i h1 h2 k s)"
  from Actor_init_Inr [OF assms]
  have r: "Actor_reset_parameters G ?a0 (snd (allocated G i h1 h2 k s)) = (None, a, g')"
    by simp
  have "ndim (weight (fc1 ?a0)) = 2" "ndim (weight (fc2 ?a0)) = 2" "ndim (weight (fc3 ?a0)) = 2"
    by (rule size_of_ndim2, rule allocated_fields)+
  from Actor_reset_parameters_shape [OF r this] show ?thesis
    by (simp add: allocated_fields)
qed

lemma Actor_Critics_init_Inr:
  assumes "Actor_Critics_init G n s a h1 h2 seed g = (Inr e, g')"
  obtains g1 g2 g3 where
    "Actor_init G s h1 h2 a seed g = (Inr (actor_local e), g1)"
    "Actor_init G s h1 h2 a seed g1 = (Inr (actor_target e), g2)"
    "Critic_init G ((s + a) * n) h1 h2 seed g2 = (Inr (critic_local e), g3)"
    "Critic_init G ((s + a) * n) h1 h2 seed g3 = (Inr (critic_target e), g')"
  using assms
  by (auto simp: Actor_Critics_init_def Let_def split: prod.splits sum.splits)

lemma Actor_Critics_init_succeeds:
  assumes "seed_ok seed" and "0 < h1" and "0 < h2"
  shows "\<exists>e g'. Actor_Critics_init G n s a h1 h2 seed g = (Inr e, g')"
proof -
  from Actor_init_succeeds [OF assms, of G s a g] obtain al g1
    where 1: "Actor_init G s h1 h2 a seed g = (Inr al, g1)" by blast
  from Actor_init_succeeds [OF assms, of G s a g1] obtain atg g2
    where 2: "Actor_init G s h1 h2 a seed g1 = (Inr atg, g2)" by blast
  from Actor_init_succeeds [OF assms, of G "(s + a) * n" 1 g2] obtain cl g3
    where 3: "Critic_init G ((s + a) * n) h1 h2 seed g2 = (Inr cl, g3)"
    by (auto simp: Critic_init_eq_Actor_init)
  from Actor_init_succeeds [OF assms, of G "(s + a) * n" 1 g3] obtain ct g4
    where 4: "Critic_init G ((s + a) * n) h1 h2 seed g3 = (Inr ct, g4)"
    by (auto simp: Critic_init_eq_Actor_init)
  from 1 2 3 4 show ?thesis by (simp add: Actor_Critics_init_def)
qed

lemma Actor_init_Inr_fst:
  assumes "Actor_init G i h1 h2 k s g = (Inr a, g')"
  shows "fst (Actor_init G i h1 h2 k s g0) = Inr a"
  using Actor_init_deterministic [of G i h1 h2 k s g0 g] assms by simp

lemma entries_tmap: "entries (tmap f t) = map f (entries t)"
  by (cases t) (simp_all add: map_concat)

lemma size_of_tmap: "size_of (tmap f t) = size_of t"
  by (cases t) simp_all

lemma wf_tensor_tmap: "wf_tensor (tmap f t) = wf_tensor t"
  by (cases t) (simp_all add: list_all_iff)

lemma tanh_t_batch: "batch_of n c x \<Longrightarrow> batch_of n c (tanh_t x)"
  by (simp add: batch_of_def tanh_t_def size_of_tmap wf_tensor_tmap)

lemma tanh_t_range: "list_all (\<lambda>v. - 1 \<le> v \<and> v \<le> 1) (entries (tanh_t x))"
proof -
  have "- 1 \<le> tanh v \<and> tanh v \<le> 1" for v :: real
    using tanh_real_gt_neg1 [of v] tanh_real_lt_1 [of v] by simp
  then show ?thesis by (simp add: tanh_t_def entries_tmap list_all_iff)
qed

lemma batch_norm_forward_batch:
  assumes "wf_batchnorm c b" and "batch_of n c x" and "\<not> training b \<or> n \<noteq> 1"
  shows "\<exists>y b'. batch_norm_forward b x = (Inr y, b') \<and> batch_of n c y
           \<and> training b' = training b \<and> (\<not> training b \<longrightarrow> b' = b)"
proof (cases "training b")
  case True
  with assms(3) have "n \<noteq> 1" by simp
  from batch_norm_forward_train [OF True assms(1,2) this] True show ?thesis by auto
next
  case False
  from batch_norm_forward_eval [OF False assms(1,2)] False show ?thesis by auto
qed

lemma Actor_forward_T2:
  "Actor_forward self (T2 c rows) =
     (case linear_forward (fc1 self) (T2 c rows) of
        Inl e \<Rightarrow> (Inl e, self)
      | Inr h1 \<Rightarrow>
          (case batch_norm_forward (bn self) (relu h1) of
             (Inl e, b) \<Rightarrow> (Inl e, self\<lparr>bn := b\<rparr>)
           | (Inr x, b) \<Rightarrow>
               (case linear_forward (fc2 self) x of
                  Inl e \<Rightarrow> (Inl e, self\<lparr>bn := b\<rparr>)
                | Inr h2 \<Rightarrow>
                    (case linear_forward (fc3 self) (relu h2) of
                       Inl e \<Rightarrow> (Inl e, self\<lparr>bn := b\<rparr>)
                     | Inr h3 \<Rightarrow> (Inr (tanh_t h3), self\<lparr>bn := b\<rparr>)))))"
  by (simp add: Actor_forward_def Let_def split: sum.splits prod.splits)

lemma Actor_forward_T1: "Actor_forward self (T1 xs) = Actor_forward self (T2 (length xs) [xs])"
  by (simp add: Actor_forward_def unsqueeze0_def)

lemma Actor_forward_batch:
  assumes wf: "wf_network i h1 h2 k a" and x: "batch_of n i state"
    and mode: "\<not> training (bn a) \<or> n \<noteq> 1"
  shows "\<exists>x1 x2 b x3 x4.
           linear_forward (fc1 a) state = Inr x1
         \<and> batch_norm_forward (bn a) (relu x1) = (Inr x2, b)
         \<and> linear_forward (fc2 a) x2 = Inr x3
         \<and> linear_forward (fc3 a) (relu x3) = Inr x4
         \<and> Actor_forward a state = (Inr (tanh_t x4), a\<lparr>bn := b\<rparr>)
         \<and> batch_of n k (tanh_t x4)
         \<and> (\<not> training (bn a) \<longrightarrow> b = bn a)"
proof -
  from wf have l1: "wf_linear i h1 (fc1 a)" and l2: "wf_linear h1 h2 (fc2 a)"
    and l3: "wf_linear h2 k (fc3 a)" and wb: "wf_batchnorm h1 (bn a)"
    by (simp_all add: wf_network_def)
  from linear_forward_batch [OF l1 x] obtain x1
    where 1: "linear_forward (fc1 a) state = Inr x1" "batch_of n h1 x1" by blast
  from batch_norm_forward_batch [OF wb relu_batch [OF 1(2)] mode] obtain x2 b
    where 2: "batch_norm_forward (bn a) (relu x1) = (Inr x2, b)" "batch_of n h1 x2"
      "\<not> training (bn a) \<longrightarrow> b = bn a" by blast
  from linear_forward_batch [OF l2 2(2)] obtain x3
    where 3: "linear_forward (fc2 a) x2 = Inr x3" "batch_of n h2 x3" by blast
  from linear_forward_batch [OF l3 relu_batch [OF 3(2)]] obtain x4
    where 4: "linear_forward (fc3 a) (relu x3) = Inr x4" "batch_of n k x4" by blast
  from x obtain rows where "state = T2 i rows" by (rule batch_ofE)
  with 1(1) 2(1) 3(1) 4(1)
  have "Actor_forward a state = (Inr (tanh_t x4), a\<lparr>bn := b\<rparr>)"
    by (simp add: Actor_forward_T2)
  with 1 2 3 4 tanh_t_batch [OF 4(2)] show ?thesis by blast
qed

lemma Actor_forward_single_training:
  assumes wf: "wf_network i h1 h2 k a" and x: "batch_of 1 i state" and mode: "training (bn a)"
  shows "Actor_forward a state
         = (Inl SingleValuePerChannel,
            a\<lparr>bn := (bn a)\<lparr>num_batches_tracked := num_batches_tracked (bn a) + 1\<rparr>\<rparr>)"
proof -
  from wf have l1: "wf_linear i h1 (fc1 a)" by (simp add: wf_network_def)
  from linear_forward_batch [OF l1 x] obtain x1
    where 1: "linear_forward (fc1 a) state = Inr x1" "batch_of 1 h1 x1" by blast
  from relu_batch [OF 1(2)] have "size_of (relu x1) = [1, h1]" by (simp add: batch_of_def)
  from batch_norm_forward_single [OF mode this]
  have 2: "batch_norm_forward (bn a) (relu x1)
      = (Inl SingleValuePerChannel, (bn a)\<lparr>num_batches_tracked := num_batches_tracked (bn a) + 1\<rparr>)" .
  from x obtain rows where "state = T2 i rows" by (rule batch_ofE)
  with 1(1) 2 show ?thesis by (simp add: Actor_forward_T2)
qed

lemma wf_nn_BatchNorm1d: "wf_batchnorm n (nn_BatchNorm1d n)"
  by (simp add: wf_batchnorm_def nn_BatchNorm1d_def list_all_iff)

lemma training_nn_BatchNorm1d: "training (nn_BatchNorm1d n)"
  by (simp add: nn_BatchNorm1d_def)

lemma wf_example_network: "wf_network 2 2 2 1 example_network"
  using wf_nn_BatchNorm1d [of 2]
  by (simp add: wf_network_def wf_linear_def example_network_def)

lemma training_example_network: "training (bn example_network)"
  by (simp add: example_network_def training_nn_BatchNorm1d)

lemma wf_eval_mode: "wf_network i h1 h2 k a \<Longrightarrow> wf_network i h1 h2 k (eval_mode a)"
  by (simp add: wf_network_def wf_batchnorm_def eval_mode_def)

lemma training_eval_mode: "\<not> training (bn (eval_mode a))"
  by (simp add: eval_mode_def)

lemma wf_nn_Linear:
  assumes "wf_generator G"
  shows "wf_linear i n (fst (nn_Linear G i n g))"
proof -
  from assms have "length (fst (fill G g (n * i))) = n * i"
    and "length (fst (fill G (snd (fill G g (n * i))) n)) = n"
    by (simp_all add: wf_generator_def)
  then show ?thesis
    by (simp add: wf_linear_def nn_Linear_def Let_def case_prod_beta length_chop chop_rows)
qed

lemma reset_weight_wf:
  assumes "wf_generator G" and "reset_weight G l bnds g = (Inr l', g')" and "wf_linear i n l"
  shows "wf_linear i n l'"
  using uniform_inplace_wf [OF assms(1) reset_weight_Inr [OF assms(2), THEN conjunct1]]
    reset_weight_frame [OF assms(2)] assms(3)
  by (simp add: wf_linear_def)

lemma Actor_reset_parameters_wf:
  assumes "wf_generator G" and "Actor_reset_parameters G a g = (None, a', g')"
    and "wf_network i h1 h2 k a"
  shows "wf_network i h1 h2 k a' \<and> bn a' = bn a"
  using assms(2)
proof (rule Actor_reset_parameters_None)
  fix l1 l2 l3 g1 g2
  assume 1: "reset_weight G (fc1 a) (hidden_init (fc1 a)) g = (Inr l1, g1)"
    and 2: "reset_weight G (fc2 a) (hidden_init (fc2 a)) g1 = (Inr l2, g2)"
    and 3: "reset_weight G (fc3 a) (Finite (- (3 / 1000)), Finite (3 / 1000)) g2 = (Inr l3, g')"
    and a': "a' = a\<lparr>fc1 := l1, fc2 := l2, fc3 := l3\<rparr>"
  from assms(3) have "wf_linear i h1 (fc1 a)" "wf_linear h1 h2 (fc2 a)" "wf_linear h2 k (fc3 a)"
    "wf_batchnorm h1 (bn a)" by (simp_all add: wf_network_def)
  with reset_weight_wf [OF assms(1) 1] reset_weight_wf [OF assms(1) 2]
    reset_weight_wf [OF assms(1) 3] a'
  show ?thesis by (simp add: wf_network_def)
qed

lemma wf_allocated:
  assumes "wf_generator G"
  shows "wf_network i h1 h2 k (fst (allocated G i h1 h2 k s))"
  using wf_nn_Linear [OF assms] wf_nn_BatchNorm1d
  by (simp add: wf_network_def allocated_def Let_def case_prod_beta)

lemma Actor_init_wf:
  assumes "wf_generator G" and "Actor_init G i h1 h2 k s g = (Inr a, g')"
  shows "wf_network i h1 h2 k a \<and> training (bn a)"
proof -
  from Actor_init_Inr [OF assms(2)]
  have "Actor_reset_parameters G (fst (allocated G i h1 h2 k s)) (snd (allocated G i h1 h2 k s))
      = (None, a, g')" by simp
  from Actor_reset_parameters_wf [OF assms(1) this wf_allocated [OF assms(1)]]
  show ?thesis by (simp add: allocated_fields training_nn_BatchNorm1d)
qed

lemma cat_dim1_batch:
  assumes "batch_of n sw s" and "batch_of n aw a"
  shows "\<exists>xs. cat_dim1 s a = Inr xs \<and> batch_of n (sw + aw) xs"
proof -
  from assms(1) obtain srows where s: "s = T2 sw srows" "length srows = n"
    "list_all (\<lambda>r. length r = sw) srows" by (rule batch_ofE)
  from assms(2) obtain arows where a: "a = T2 aw arows" "length arows = n"
    "list_all (\<lambda>r. length r = aw) arows" by (rule batch_ofE)
  have "length (fst p @ snd p) = sw + aw" if "p \<in> set (zip srows arows)" for p
  proof -
    obtain r r' where p: "p = (r, r')" by (cases p)
    with that have "fst p \<in> set srows" "snd p \<in> set arows"
      by (auto dest: set_zip_leftD set_zip_rightD)
    with s(3) a(3) show ?thesis by (simp add: list_all_iff)
  qed
  then have "list_all (\<lambda>r. length r = sw + aw) (map2 (@) srows arows)"
    by (auto simp: list_all_iff)
  with s a show ?thesis by simp
qed

lemma cat_dim1_batch_mismatch:
  assumes "size_of s = [n, sw]" and "size_of a = [n', aw]" and "n \<noteq> n'"
  shows "cat_dim1 s a = Inl DimensionMismatch"
  using assms by (cases s; cases a) simp_all

lemma cat_dim1_size:
  assumes "size_of s = [n, sw]" and "size_of a = [n, aw]"
  shows "\<exists>xs. cat_dim1 s a = Inr xs \<and> size_of xs = [n, sw + aw]"
  using assms by (cases s; cases a) simp_all

lemma Critic_forward_cat:
  assumes "cat_dim1 state action = Inr xs"
  shows "Critic_forward self state action =
     (case linear_forward (fc1 self) xs of
        Inl e \<Rightarrow> (Inl e, self)
      | Inr h1 \<Rightarrow>
          (case batch_norm_forward (bn self) (relu h1) of
             (Inl e, b) \<Rightarrow> (Inl e, self\<lparr>bn := b\<rparr>)
           | (Inr x, b) \<Rightarrow>
               (case linear_forward (fc2 self) x of
                  Inl e \<Rightarrow> (Inl e, self\<lparr>bn := b\<rparr>)
                | Inr h2 \<Rightarrow>
                    (case linear_forward (fc3 self) (relu h2) of
                       Inl e \<Rightarrow> (Inl e, self\<lparr>bn := b\<rparr>)
                     | Inr h3 \<Rightarrow> (Inr h3, self\<lparr>bn := b\<rparr>)))))"
  using assms by (simp add: Critic_forward_def Let_def split: sum.splits prod.splits)

lemma Critic_forward_cat_fails:
  assumes "cat_dim1 state action = Inl e"
  shows "Critic_forward self state action = (Inl e, self)"
  using assms by (simp add: Critic_forward_def)

lemma Critic_forward_batch:
  assumes wf: "wf_network i h1 h2 k c" and s: "batch_of n sw state"
    and a: "batch_of n aw action" and w: "sw + aw = i"
    and mode: "\<not> training (bn c) \<or> n \<noteq> 1"
  shows "\<exists>xs x1 x2 b x3 y.
           cat_dim1 state action = Inr xs \<and> batch_of n i xs
         \<and> linear_forward (fc1 c) xs = Inr x1
         \<and> batch_norm_forward (bn c) (relu x1) = (Inr x2, b)
         \<and> linear_forward (fc2 c) x2 = Inr x3
         \<and> linear_forward (fc3 c) (relu x3) = Inr y
         \<and> Critic_forward c state action = (Inr y, c\<lparr>bn := b\<rparr>)
         \<and> batch_of n k y
         \<and> (\<not> training (bn c) \<longrightarrow> b = bn c)
         \<and> batch_of n h2 x3"
proof -
  from wf have l1: "wf_linear i h1 (fc1 c)" and l2: "wf_linear h1 h2 (fc2 c)"
    and l3: "wf_linear h2 k (fc3 c)" and wb: "wf_batchnorm h1 (bn c)"
    by (simp_all add: wf_network_def)
  from cat_dim1_batch [OF s a] w obtain xs
    where 0: "cat_dim1 state action = Inr xs" "batch_of n i xs" by blast
  from linear_forward_batch [OF l1 0(2)] obtain x1
    where 1: "linear_forward (fc1 c) xs = Inr x1" "batch_of n h1 x1" by blast
  from batch_norm_forward_batch [OF wb relu_batch [OF 1(2)] mode] obtain x2 b
    where 2: "batch_norm_forward (bn c) (relu x1) = (Inr x2, b)" "batch_of n h1 x2"
      "\<not> training (bn c) \<longrightarrow> b = bn c" by blast
  from linear_forward_batch [OF l2 2(2)] obtain x3
    where 3: "linear_forward (fc2 c) x2 = Inr x3" "batch_of n h2 x3" by blast
  from linear_forward_batch [OF l3 relu_batch [OF 3(2)]] obtain y
    where 4: "linear_forward (fc3 c) (relu x3) = Inr y" "batch_of n k y" by blast
  from 1(1) 2(1) 3(1) 4(1)
  have "Critic_forward c state action = (Inr y, c\<lparr>bn := b\<rparr>)"
    by (simp add: Critic_forward_cat [OF 0(1)])
  with 0 1 2 3 4 show ?thesis by blast
qed

lemma Critic_forward_single_training:
  assumes wf: "wf_network i h1 h2 k c" and s: "batch_of 1 sw state"
    and a: "batch_of 1 aw action" and w: "sw + aw = i" and mode: "training (bn c)"
  shows "Critic_forward c state action
         = (Inl SingleValuePerChannel,
            c\<lparr>bn := (bn c)\<lparr>num_batches_tracked := num_batches_tracked (bn c) + 1\<rparr>\<rparr>)"
proof -
  from wf have l1: "wf_linear i h1 (fc1 c)" by (simp add: wf_network_def)
  from cat_dim1_batch [OF s a] w obtain xs
    where 0: "cat_dim1 state action = Inr xs" "batch_of 1 i xs" by blast
  from linear_forward_batch [OF l1 0(2)] obtain x1
    where 1: "linear_forward (fc1 c) xs = Inr x1" "batch_of 1 h1 x1" by blast
  from relu_batch [OF 1(2)] have "size_of (relu x1) = [1, h1]" by (simp add: batch_of_def)
  from batch_norm_forward_single [OF mode this]
  have 2: "batch_norm_forward (bn c) (relu x1)
      = (Inl SingleValuePerChannel, (bn c)\<lparr>num_batches_tracked := num_batches_tracked (bn c) + 1\<rparr>)" .
  from 1(1) 2 show ?thesis by (simp add: Critic_forward_cat [OF 0(1)])
qed

lemma wf_constant_critic: "wf_network 2 2 2 1 (constant_critic v)"
  using wf_eval_mode [OF wf_example_network]
  by (simp add: constant_critic_def wf_network_def wf_linear_def)

lemma constant_critic_value:
  "fst (Critic_forward (constant_critic v) (T2 1 [[0]]) (T2 1 [[0]])) = Inr (T2 1 [[v]])"
proof -
  have s: "batch_of 1 1 (T2 1 [[0]])" by simp
  have m: "\<not> training (bn (constant_critic v)) \<or> (1::nat) \<noteq> 1"
    by (simp add: constant_critic_def eval_mode_def)
  have w: "(1::nat) + 1 = 2" by simp
  from Critic_forward_batch [OF wf_constant_critic s s w m] obtain x3 y b where
    x3: "batch_of 1 2 x3"
    and y: "linear_forward (fc3 (constant_critic v)) (relu x3) = Inr y"
    and r: "Critic_forward (constant_critic v) (T2 1 [[0]]) (T2 1 [[0]])
              = (Inr y, (constant_critic v)\<lparr>bn := b\<rparr>)"
    by blast
  from x3 obtain rows where rows: "x3 = T2 2 rows" "length rows = 1"
    "list_all (\<lambda>r. length r = 2) rows" by (rule batch_ofE)
  then obtain p q where "rows = [[p, q]]"
    by (auto simp: length_Suc_conv numeral_2_eq_2)
  with rows y have "y = T2 1 [[v]]"
    by (simp add: constant_critic_def relu_def linear_forward_def affine_def dot_def)
  with r show ?thesis by simp
qed

lemma Actor_forward_mismatch:
  assumes "size_of (weight (fc1 a)) = [m, i]" and "last (size_of state) \<noteq> i"
  shows "Actor_forward a state = (Inl DimensionMismatch, a)"
proof (cases state)
  case (T1 xs)
  with assms(2) have "last (size_of (T2 (length xs) [xs])) \<noteq> i" by simp
  from linear_forward_mismatch [OF assms(1) this] T1 show ?thesis
    by (simp add: Actor_forward_T1 Actor_forward_T2)
next
  case (T2 c rows)
  with linear_forward_mismatch [OF assms] show ?thesis by (simp add: Actor_forward_T2)
qed

lemma Critic_forward_width_mismatch:
  assumes "size_of s = [n, sw]" and "size_of act = [n, aw]"
    and "size_of (weight (fc1 c)) = [m, i]" and "sw + aw \<noteq> i"
  shows "Critic_forward c s act = (Inl DimensionMismatch, c)"
proof -
  from cat_dim1_size [OF assms(1,2)] obtain xs
    where xs: "cat_dim1 s act = Inr xs" "size_of xs = [n, sw + aw]" by blast
  with assms(4) have "last (size_of xs) \<noteq> i" by simp
  from linear_forward_mismatch [OF assms(3) this] show ?thesis
    by (simp add: Critic_forward_cat [OF xs(1)])
qed

lemma linear_forward_T1:
  "linear_forward l (T1 xs) = Inl DimensionMismatch \<or> (\<exists>zs. linear_forward l (T1 xs) = Inr (T1 zs))"
  by (cases "weight l"; cases "bias l") (simp_all add: linear_forward_def)

lemma batch_norm_forward_T1: "batch_norm_forward b (relu (T1 zs)) = (Inl ExpectedBatchInput, b)"
  by (simp add: batch_norm_forward_def relu_def)

lemma Critic_forward_empty_vectors:
  "Critic_forward c (T1 []) (T1 []) = (Inl DimensionMismatch, c)
   \<or> Critic_forward c (T1 []) (T1 []) = (Inl ExpectedBatchInput, c)"
proof -
  have cat: "cat_dim1 (T1 []) (T1 []) = Inr (T1 [])" by simp
  from linear_forward_T1 [of "fc1 c" "[]"] show ?thesis
  proof
    assume "linear_forward (fc1 c) (T1 []) = Inl DimensionMismatch"
    then show ?thesis by (simp add: Critic_forward_cat [OF cat])
  next
    assume "\<exists>zs. linear_forward (fc1 c) (T1 []) = Inr (T1 zs)"
    then obtain zs where "linear_forward (fc1 c) (T1 []) = Inr (T1 zs)" ..
    then show ?thesis by (simp add: Critic_forward_cat [OF cat] batch_norm_forward_T1)
  qed
qed

lemma Critic_forward_vectors:
  assumes "xs \<noteq> [] \<or> ys \<noteq> []"
  shows "Critic_forward c (T1 xs) (T1 ys) = (Inl DimensionOutOfRange, c)"
proof -
  from assms have "cat_dim1 (T1 xs) (T1 ys) = Inl DimensionOutOfRange" by auto
  then show ?thesis by (rule Critic_forward_cat_fails)
qed

lemma Critic_forward_Inr_ranks:
  assumes "fst (Critic_forward c s a) = Inr y"
  shows "(ndim s = 2 \<or> ndim a = 2) \<and> (ndim s = 1 \<longrightarrow> s = T1 []) \<and> (ndim a = 1 \<longrightarrow> a = T1 [])"
proof (cases s)
  case s: (T1 xs)
  show ?thesis
  proof (cases a)
    case a: (T1 ys)
    show ?thesis
    proof (cases "xs = [] \<and> ys = []")
      case True
      with Critic_forward_empty_vectors [of c] assms s a show ?thesis by auto
    next
      case False
      then have "xs \<noteq> [] \<or> ys \<noteq> []" by simp
      from Critic_forward_vectors [OF this, of c] assms s a show ?thesis by simp
    qed
  next
    case a: (T2 c' rows)
    show ?thesis
    proof (cases "xs = []")
      case True
      with s a show ?thesis by simp
    next
      case False
      with s a have "cat_dim1 s a = Inl DimensionOutOfRange" by simp
      from Critic_forward_cat_fails [OF this, of c] assms show ?thesis by simp
    qed
  qed
next
  case s: (T2 c' rows)
  show ?thesis
  proof (cases a)
    case a: (T1 ys)
    show ?thesis
    proof (cases "ys = []")
      case True
      with s a show ?thesis by simp
    next
      case False
      with s a have "cat_dim1 s a = Inl DimensionMismatch" by simp
      from Critic_forward_cat_fails [OF this, of c] assms show ?thesis by simp
    qed
  next
    case (T2 c'' rows')
    with s show ?thesis by simp
  qed
qed

lemma Critic_forward_same_cat:
  assumes "cat_dim1 s a = Inr xs" and "cat_dim1 s' a' = Inr xs"
  shows "Critic_forward c s a = Critic_forward c s' a'"
  by (simp only: Critic_forward_cat [OF assms(1)] Critic_forward_cat [OF assms(2)])

lemma abs_dot: "\<bar>dot w x\<bar> \<le> sum_list (map2 (\<lambda>u v. \<bar>u * v\<bar>) w x)"
proof -
  have "\<bar>sum_list (map (\<lambda>(u, v). u * v) ps)\<bar> \<le> sum_list (map (\<lambda>(u, v). \<bar>u * v\<bar>) ps)"
    for ps :: "(real \<times> real) list"
  proof (induction ps)
    case Nil
    then show ?case by simp
  next
    case (Cons p ps)
    obtain u v where p: "p = (u, v)" by (cases p)
    have "\<bar>u * v + sum_list (map (\<lambda>(u, v). u * v) ps)\<bar>
        \<le> \<bar>u * v\<bar> + \<bar>sum_list (map (\<lambda>(u, v). u * v) ps)\<bar>" by (rule abs_triangle_ineq)
    with Cons p show ?case by simp
  qed
  then show ?thesis by (simp add: dot_def)
qed

lemma affine_within:
  assumes "affine_fits wrows bs x"
  shows "list_all (\<lambda>v. \<bar>v\<bar> \<le> float_limit) (affine wrows bs x)"
proof -
  have "\<bar>dot w x + b\<bar> \<le> float_limit" if "(w, b) \<in> set (zip wrows bs)" for w b
  proof -
    from assms that have "sum_list (map2 (\<lambda>u v. \<bar>u * v\<bar>) w x) + \<bar>b\<bar> \<le> float_limit"
      by (auto simp: affine_fits_def list_all_iff)
    moreover have "\<bar>dot w x + b\<bar> \<le> \<bar>dot w x\<bar> + \<bar>b\<bar>" by (rule abs_triangle_ineq)
    ultimately show ?thesis using abs_dot [of w x] by linarith
  qed
  then show ?thesis by (auto simp: affine_def list_all_iff)
qed

lemma linear_forward_within:
  assumes "linear_fits l x" and "linear_forward l x = Inr y"
  shows "within_limit y"
proof (cases "weight l")
  case (T1 ws)
  with assms(2) show ?thesis by (simp add: linear_forward_def)
next
  case w: (T2 k wrows)
  show ?thesis
  proof (cases "bias l")
    case (T2 c brows)
    with w assms(2) show ?thesis by (simp add: linear_forward_def)
  next
    case b: (T1 bs)
    from assms(1) w b have fits: "list_all (affine_fits wrows bs) (rows_of x)"
      by (simp add: linear_fits_def)
    show ?thesis
    proof (cases x)
      case (T1 xs)
      with fits have "affine_fits wrows bs xs" by simp
      from affine_within [OF this] T1 w b assms(2) show ?thesis
        by (auto simp: linear_forward_def within_limit_def split: if_splits)
    next
      case (T2 c rows)
      have "list_all (\<lambda>v. \<bar>v\<bar> \<le> float_limit) (affine wrows bs r)" if "r \<in> set rows" for r
      proof (rule affine_within)
        from fits T2 that show "affine_fits wrows bs r" by (simp add: list_all_iff)
      qed
      then have "\<forall>r \<in> set rows. \<forall>v \<in> set (affine wrows bs r). \<bar>v\<bar> \<le> float_limit"
        by (simp add: list_all_iff)
      with T2 w b assms(2) show ?thesis
        by (auto simp: linear_forward_def within_limit_def list_all_iff split: if_splits)
    qed
  qed
qed

lemma relu_within: "within_limit x \<Longrightarrow> within_limit (relu x)"
  by (auto simp: within_limit_def relu_def entries_tmap list_all_iff)

lemma normalize_entry:
  fixes x m v g h e :: real
  assumes "0 < v + e" and "(\<bar>x\<bar> + \<bar>m\<bar>) * (max 1 \<bar>g\<bar> / sqrt (v + e)) + \<bar>h\<bar> \<le> float_limit"
  shows "\<bar>(x - m) / sqrt (v + e) * g + h\<bar> \<le> float_limit"
proof -
  let ?s = "sqrt (v + e)"
  from assms(1) have s: "0 < ?s" by simp
  have "\<bar>(x - m) / ?s * g\<bar> = \<bar>x - m\<bar> * (\<bar>g\<bar> / ?s)"
    using s by (simp add: abs_mult)
  also have "\<dots> \<le> (\<bar>x\<bar> + \<bar>m\<bar>) * (max 1 \<bar>g\<bar> / ?s)"
  proof (rule mult_mono)
    show "\<bar>x - m\<bar> \<le> \<bar>x\<bar> + \<bar>m\<bar>" by simp
    show "\<bar>g\<bar> / ?s \<le> max 1 \<bar>g\<bar> / ?s" using s by (simp add: divide_right_mono)
    show "0 \<le> \<bar>x\<bar> + \<bar>m\<bar>" by simp
    show "0 \<le> \<bar>g\<bar> / ?s" using s by simp
  qed
  finally have "\<bar>(x - m) / ?s * g\<bar> \<le> (\<bar>x\<bar> + \<bar>m\<bar>) * (max 1 \<bar>g\<bar> / ?s)" .
  moreover have "\<bar>(x - m) / ?s * g + h\<bar> \<le> \<bar>(x - m) / ?s * g\<bar> + \<bar>h\<bar>"
    by (rule abs_triangle_ineq)
  ultimately show ?thesis using assms(2) by linarith
qed

lemma normalize_within:
  assumes "normalize_fits e mu var w b r"
  shows "list_all (\<lambda>v. \<bar>v\<bar> \<le> float_limit) (normalize_row e mu var w b r)"
proof -
  have "\<bar>(x - m) / sqrt (v + e) * g + h\<bar> \<le> float_limit"
    if "(x, m, v, g, h) \<in> set (zip r (zip mu (zip var (zip w b))))" for x m v g h
  proof (rule normalize_entry)
    from assms that show "0 < v + e"
      by (fastforce simp: normalize_fits_def list_all_iff)
    from assms that
    show "(\<bar>x\<bar> + \<bar>m\<bar>) * (max 1 \<bar>g\<bar> / sqrt (v + e)) + \<bar>h\<bar> \<le> float_limit"
      by (fastforce simp: normalize_fits_def list_all_iff)
  qed
  then show ?thesis by (auto simp: normalize_row_def list_all_iff)
qed

lemma batch_norm_forward_within:
  assumes "batch_norm_fits b x" and "batch_norm_forward b x = (Inr y, b')"
  shows "within_limit y"
proof (cases x)
  case (T1 xs)
  with assms(2) show ?thesis by (simp add: batch_norm_forward_def)
next
  case (T2 c rows)
  show ?thesis
  proof (cases "rows = []")
    case True
    with T2 assms(2) show ?thesis
      by (auto simp: batch_norm_forward_def within_limit_def split: if_splits)
  next
    case False
    show ?thesis
    proof (cases "training b")
      case True
      with assms(1) T2 have
        "list_all (normalize_fits (eps b) (batch_mean c rows) (batch_var c rows)
            (bn_weight b) (bn_bias b)) rows"
        by (simp add: batch_norm_fits_def)
      then have "\<forall>r \<in> set rows. \<forall>v \<in> set (normalize_row (eps b) (batch_mean c rows)
          (batch_var c rows) (bn_weight b) (bn_bias b) r). \<bar>v\<bar> \<le> float_limit"
        using normalize_within by (fastforce simp: list_all_iff)
      with True False T2 assms(2) show ?thesis
        by (auto simp: batch_norm_forward_def Let_def within_limit_def list_all_iff
            split: if_splits)
    next
      case nt: False
      with assms(1) T2 have
        "list_all (normalize_fits (eps b) (running_mean b) (running_var b)
            (bn_weight b) (bn_bias b)) rows"
        by (simp add: batch_norm_fits_def)
      then have "\<forall>r \<in> set rows. \<forall>v \<in> set (normalize_row (eps b) (running_mean b)
          (running_var b) (bn_weight b) (bn_bias b) r). \<bar>v\<bar> \<le> float_limit"
        using normalize_within by (fastforce simp: list_all_iff)
      with nt False T2 assms(2) show ?thesis
        by (auto simp: batch_norm_forward_def Let_def within_limit_def list_all_iff
            split: if_splits)
    qed
  qed
qed

lemma Actor_forward_fits_T2:
  "Actor_forward_fits self (T2 c rows) \<longleftrightarrow>
     within_limit (T2 c rows) \<and> linear_fits (fc1 self) (T2 c rows)
   \<and> (case linear_forward (fc1 self) (T2 c rows) of
         Inl e \<Rightarrow> True
       | Inr h1 \<Rightarrow>
           batch_norm_fits (bn self) (relu h1)
         \<and> (case batch_norm_forward (bn self) (relu h1) of
               (Inl e, b) \<Rightarrow> True
             | (Inr x, b) \<Rightarrow>
                 linear_fits (fc2 self) x
               \<and> (case linear_forward (fc2 self) x of
                     Inl e \<Rightarrow> True
                   | Inr h2 \<Rightarrow> linear_fits (fc3 self) (relu h2))))"
  by (simp add: Actor_forward_fits_def Let_def)

lemma Actor_forward_within:
  assumes fits: "Actor_forward_fits a state" and st: "batch_of n i state"
    and 1: "linear_forward (fc1 a) state = Inr x1"
    and 2: "batch_norm_forward (bn a) (relu x1) = (Inr x2, b)"
    and 3: "linear_forward (fc2 a) x2 = Inr x3"
    and 4: "linear_forward (fc3 a) (relu x3) = Inr x4"
  shows "within_limit state \<and> within_limit x1 \<and> within_limit x2 \<and> within_limit x3
       \<and> within_limit x4"
proof -
  from st obtain rows where s: "state = T2 i rows" by (rule batch_ofE)
  from fits 1 2 3 4 have f: "within_limit state" "linear_fits (fc1 a) state"
    "batch_norm_fits (bn a) (relu x1)" "linear_fits (fc2 a) x2" "linear_fits (fc3 a) (relu x3)"
    unfolding s Actor_forward_fits_T2 by simp_all
  from linear_forward_within [OF f(2) 1] have w1: "within_limit x1" .
  from batch_norm_forward_within [OF f(3) 2] have w2: "within_limit x2" .
  from linear_forward_within [OF f(4) 3] have w3: "within_limit x3" .
  from linear_forward_within [OF f(5) 4] have w4: "within_limit x4" .
  from f(1) w1 w2 w3 w4 show ?thesis by simp
qed

lemma replicate_2: "replicate 2 x = [x, x]"
  by (simp add: numeral_2_eq_2)

lemma sqrt_example: "sqrt (121 / 4000000) = 11 / 2000"
  by (rule real_sqrt_unique) (simp_all add: power2_eq_square)

lemma example_fc1:
  "linear_forward (fc1 example_network) example_batch = Inr (T2 2 [[0, 0], [9 / 1000, 9 / 1000]])"
  by (simp add: linear_forward_def example_network_def example_batch_def affine_def dot_def)

lemma example_relu1: "relu (T2 2 [[0, 0], [9 / 1000, 9 / 1000]]) = T2 2 [[0, 0], [9 / 1000, 9 / 1000]]"
  by (simp add: relu_def)

lemma example_mean: "batch_mean 2 [[0, 0], [9 / 1000, 9 / 1000]] = [9 / 2000, 9 / 2000]"
  by (simp add: batch_mean_def vsum_def replicate_2)

lemma example_var: "batch_var 2 [[0, 0], [9 / 1000, 9 / 1000]] = [81 / 4000000, 81 / 4000000]"
  by (simp add: batch_var_def example_mean vsum_def replicate_2 power2_eq_square Let_def)

lemma example_bn:
  "fst (batch_norm_forward (bn example_network) (T2 2 [[0, 0], [9 / 1000, 9 / 1000]]))
     = Inr (T2 2 [[- (9 / 11), - (9 / 11)], [9 / 11, 9 / 11]])"
  by (simp add: batch_norm_forward_def example_network_def nn_BatchNorm1d_def Let_def
      example_mean example_var normalize_row_def replicate_2 sqrt_example)

lemma example_fc2:
  "linear_forward (fc2 example_network) (T2 2 [[- (9 / 11), - (9 / 11)], [9 / 11, 9 / 11]])
     = Inr (T2 2 [[- (27 / 44), - (9 / 44)], [27 / 44, 9 / 44]])"
  by (simp add: linear_forward_def example_network_def affine_def dot_def)

lemma example_relu2:
  "relu (T2 2 [[- (27 / 44), - (9 / 44)], [27 / 44, 9 / 44]]) = T2 2 [[0, 0], [27 / 44, 9 / 44]]"
  by (simp add: relu_def)

lemma example_fits1: "within_limit example_batch \<and> linear_fits (fc1 example_network) example_batch"
  by (simp add: within_limit_def linear_fits_def affine_fits_def example_network_def
      example_batch_def float_limit_def)

lemma example_fits_bn:
  "batch_norm_fits (bn example_network) (T2 2 [[0, 0], [9 / 1000, 9 / 1000]])"
  by (simp add: batch_norm_fits_def example_network_def nn_BatchNorm1d_def vmax_def
      normalize_fits_def example_mean example_var replicate_2 sqrt_example float_limit_def
      power2_eq_square)

lemma example_fits2:
  "linear_fits (fc2 example_network) (T2 2 [[- (9 / 11), - (9 / 11)], [9 / 11, 9 / 11]])"
  by (simp add: linear_fits_def affine_fits_def example_network_def float_limit_def)

lemma example_fits3: "linear_fits (fc3 example_network) (T2 2 [[0, 0], [27 / 44, 9 / 44]])"
  by (simp add: linear_fits_def affine_fits_def example_network_def float_limit_def)

lemma Actor_forward_fits_example: "Actor_forward_fits example_network example_batch"
proof -
  have "Actor_forward_fits example_network (T2 2 [[0, 0], [9 / 500, 9 / 500]])"
    unfolding Actor_forward_fits_T2
    using example_fits1 example_fits_bn example_fits2 example_fits3 example_bn
    by (simp add: example_fc1 [unfolded example_batch_def] example_relu1 example_fc2
        example_relu2 case_prod_beta example_batch_def)
  then show ?thesis by (simp add: example_batch_def)
qed

subsection \<open>The claims\<close>

text \<open>
  C4. For a layer whose weight tensor has first dimension \<open>d \<ge> 1\<close>, hidden_init returns
  exactly the pair \<open>(-1/sqrt d, 1/sqrt d)\<close>, where \<open>d\<close> is the size of the weight along
  its first dimension (the number of rows, the output width), whatever the second one is;
  for \<open>d = 256\<close> the pair is \<open>(-0.0625, 0.0625)\<close>. The result is a function of the
  layer alone and nothing else is returned or changed.
\<close>

theorem hidden_init_bounds:
  assumes "weight layer = T2 c rows" and "length rows = d" and "1 \<le> d"
  shows "hidden_init layer = (Finite (- (1 / sqrt (real d))), Finite (1 / sqrt (real d)))
       \<and> (d = 256 \<longrightarrow> hidden_init layer = (Finite (- 0.0625), Finite 0.0625))"
  using assms by (auto simp: hidden_init_def Let_def sqrt_256)

theorem hidden_init_bounds_witness:
  "(1::nat) \<le> 256
   \<and> hidden_init \<lparr> in_features = 3, out_features = 256,
                     weight = T2 3 (replicate 256 [0, 0, 0]), bias = T1 (replicate 256 0) \<rparr>
       = (Finite (- 0.0625), Finite 0.0625)"
  using hidden_init_bounds [of "\<lparr> in_features = 3, out_features = 256,
      weight = T2 3 (replicate 256 [0, 0, 0]), bias = T1 (replicate 256 0) \<rparr>"
      3 "replicate 256 [0, 0, 0]" 256]
  by simp

text \<open>
  C1. An ensemble is built whenever the seed is accepted and the hidden widths are positive.
  In every ensemble that is built, both critics have the input width
  \<open>(state_size + action_size) * n_agents\<close> (the attribute and the second dimension of the
  first weight), and both actors have the input width \<open>state_size\<close> and the output width
  \<open>action_size\<close>. With two agents, 24 state and 2 action values the critics' width is 52.
\<close>

theorem ensemble_widths:
  "(seed_ok seed \<and> 0 < hidden_in_dim \<and> 0 < hidden_out_dim \<longrightarrow>
      (\<exists>e g'. Actor_Critics_init G n_agents state_size action_size hidden_in_dim hidden_out_dim
                 seed g = (Inr e, g')))
   \<and> (\<forall>e g'. Actor_Critics_init G n_agents state_size action_size hidden_in_dim hidden_out_dim
                 seed g = (Inr e, g') \<longrightarrow>
         in_features (fc1 (critic_local e)) = (state_size + action_size) * n_agents
       \<and> size_of (weight (fc1 (critic_local e)))
           = [hidden_in_dim, (state_size + action_size) * n_agents]
       \<and> in_features (fc1 (critic_target e)) = (state_size + action_size) * n_agents
       \<and> size_of (weight (fc1 (critic_target e)))
           = [hidden_in_dim, (state_size + action_size) * n_agents]
       \<and> in_features (fc1 (actor_local e)) = state_size
       \<and> size_of (weight (fc1 (actor_local e))) = [hidden_in_dim, state_size]
       \<and> out_features (fc3 (actor_local e)) = action_size
       \<and> size_of (weight (fc3 (actor_local e))) = [action_size, hidden_out_dim]
       \<and> in_features (fc1 (actor_target e)) = state_size
       \<and> size_of (weight (fc1 (actor_target e))) = [hidden_in_dim, state_size]
       \<and> out_features (fc3 (actor_target e)) = action_size
       \<and> size_of (weight (fc3 (actor_target e))) = [action_size, hidden_out_dim])"
proof (intro conjI impI allI)
  assume "seed_ok seed \<and> 0 < hidden_in_dim \<and> 0 < hidden_out_dim"
  then show "\<exists>e g'. Actor_Critics_init G n_agents state_size action_size hidden_in_dim
      hidden_out_dim seed g = (Inr e, g')"
    by (simp add: Actor_Critics_init_succeeds)
next
  fix e g'
  assume "Actor_Critics_init G n_agents state_size action_size hidden_in_dim hidden_out_dim
      seed g = (Inr e, g')"
  then obtain g1 g2 g3 where
    al: "Actor_init G state_size hidden_in_dim hidden_out_dim action_size seed g
          = (Inr (actor_local e), g1)" and
    atg: "Actor_init G state_size hidden_in_dim hidden_out_dim action_size seed g1
          = (Inr (actor_target e), g2)" and
    cl: "Critic_init G ((state_size + action_size) * n_agents) hidden_in_dim hidden_out_dim seed g2
          = (Inr (critic_local e), g3)" and
    ct: "Critic_init G ((state_size + action_size) * n_agents) hidden_in_dim hidden_out_dim seed g3
          = (Inr (critic_target e), g')"
    by (rule Actor_Critics_init_Inr)
  note sal = Actor_init_shape [OF al] and sat = Actor_init_shape [OF atg]
    and scl = Actor_init_shape [OF cl [unfolded Critic_init_eq_Actor_init]]
    and sct = Actor_init_shape [OF ct [unfolded Critic_init_eq_Actor_init]]
  show "in_features (fc1 (critic_local e)) = (state_size + action_size) * n_agents"
    using scl by simp
  show "size_of (weight (fc1 (critic_local e)))
      = [hidden_in_dim, (state_size + action_size) * n_agents]"
    using scl by simp
  show "in_features (fc1 (critic_target e)) = (state_size + action_size) * n_agents"
    using sct by simp
  show "size_of (weight (fc1 (critic_target e)))
      = [hidden_in_dim, (state_size + action_size) * n_agents]"
    using sct by simp
  show "in_features (fc1 (actor_local e)) = state_size" using sal by simp
  show "size_of (weight (fc1 (actor_local e))) = [hidden_in_dim, state_size]" using sal by simp
  show "out_features (fc3 (actor_local e)) = action_size" using sal by simp
  show "size_of (weight (fc3 (actor_local e))) = [action_size, hidden_out_dim]" using sal by simp
  show "in_features (fc1 (actor_target e)) = state_size" using sat by simp
  show "size_of (weight (fc1 (actor_target e))) = [hidden_in_dim, state_size]" using sat by simp
  show "out_features (fc3 (actor_target e)) = action_size" using sat by simp
  show "size_of (weight (fc3 (actor_target e))) = [action_size, hidden_out_dim]" using sat by simp
qed

theorem ensemble_widths_witness:
  "\<exists>e g'. Actor_Critics_default counting_generator 2 24 2 0 = (Inr e, g')
     \<and> in_features (fc1 (critic_local e)) = 52
     \<and> size_of (weight (fc1 (critic_target e))) = [256, 52]
     \<and> size_of (weight (fc1 (actor_local e))) = [256, 24]
     \<and> size_of (weight (fc3 (actor_target e))) = [2, 256]"
proof -
  note w = ensemble_widths [of 0 256 256 counting_generator 2 24 2 0]
  have "seed_ok 0 \<and> (0::nat) < 256 \<and> (0::nat) < 256" by (simp add: seed_ok_def)
  with w obtain e g' where
    e: "Actor_Critics_init counting_generator 2 24 2 256 256 0 0 = (Inr e, g')" by blast
  with w show ?thesis unfolding Actor_Critics_default_def by auto
qed

text \<open>
  C5. In every ensemble that is built, \<open>actor_local\<close> and \<open>actor_target\<close> are equal in
  every parameter, and so are \<open>critic_local\<close> and \<open>critic_target\<close>. More generally two
  constructions of a network with the same arguments and the same seed give the same outcome,
  whatever the generator has drawn before: the constructor seeds it anew.
\<close>

theorem ensemble_local_equals_target:
  "(\<forall>e g'. Actor_Critics_init G n_agents state_size action_size hidden_in_dim hidden_out_dim
              seed g = (Inr e, g') \<longrightarrow>
        actor_local e = actor_target e \<and> critic_local e = critic_target e)
   \<and> fst (Actor_init G input_dim hidden_in_dim hidden_out_dim output_dim seed g1)
       = fst (Actor_init G input_dim hidden_in_dim hidden_out_dim output_dim seed g2)
   \<and> fst (Critic_init G input_dim hidden_in_dim hidden_out_dim seed g1)
       = fst (Critic_init G input_dim hidden_in_dim hidden_out_dim seed g2)"
proof (intro conjI impI allI)
  fix e g'
  assume "Actor_Critics_init G n_agents state_size action_size hidden_in_dim hidden_out_dim
      seed g = (Inr e, g')"
  then obtain g1 g2 g3 where
    al: "Actor_init G state_size hidden_in_dim hidden_out_dim action_size seed g
          = (Inr (actor_local e), g1)" and
    atg: "Actor_init G state_size hidden_in_dim hidden_out_dim action_size seed g1
          = (Inr (actor_target e), g2)" and
    cl: "Critic_init G ((state_size + action_size) * n_agents) hidden_in_dim hidden_out_dim seed g2
          = (Inr (critic_local e), g3)" and
    ct: "Critic_init G ((state_size + action_size) * n_agents) hidden_in_dim hidden_out_dim seed g3
          = (Inr (critic_target e), g')"
    by (rule Actor_Critics_init_Inr)
  from Actor_init_Inr_fst [OF al, of g1] atg show "actor_local e = actor_target e" by simp
  from Actor_init_Inr_fst [OF cl [unfolded Critic_init_eq_Actor_init], of g3]
    ct [unfolded Critic_init_eq_Actor_init]
  show "critic_local e = critic_target e" by simp
next
  show "fst (Actor_init G input_dim hidden_in_dim hidden_out_dim output_dim seed g1)
      = fst (Actor_init G input_dim hidden_in_dim hidden_out_dim output_dim seed g2)"
    by (rule Actor_init_deterministic)
next
  show "fst (Critic_init G input_dim hidden_in_dim hidden_out_dim seed g1)
      = fst (Critic_init G input_dim hidden_in_dim hidden_out_dim seed g2)"
    unfolding Critic_init_eq_Actor_init by (rule Actor_init_deterministic)
qed

theorem ensemble_local_equals_target_witness:
  "\<exists>e g'. Actor_Critics_init counting_generator 2 3 1 4 4 7 0 = (Inr e, g')
      \<and> actor_local e = actor_target e \<and> critic_local e = critic_target e"
proof -
  have "seed_ok 7 \<and> (0::nat) < 4 \<and> (0::nat) < 4" by (simp add: seed_ok_def)
  then obtain e g' where
    e: "Actor_Critics_init counting_generator 2 3 1 4 4 7 0 = (Inr e, g')"
    using Actor_Critics_init_succeeds [of 7 4 4 counting_generator 2 3 1 0] by blast
  with ensemble_local_equals_target [of counting_generator 2 3 1 4 4 7 0]
  show ?thesis by blast
qed

text \<open>
  C3. After \<open>reset_parameters\<close> has returned, every weight of the third layer lies in
  \<open>[-0.003, 0.003]\<close>, and every weight of the first and of the second layer lies within
  \<open>1 / sqrt d\<close> of zero, \<open>d\<close> being the first dimension of that layer's own weight. The
  Critic's method is the Actor's. The same holds right after construction, where \<open>d\<close> is the
  first hidden width for layer one and the second hidden width for layer two. The generator
  is assumed to give samples of the unit interval.
\<close>

theorem reset_parameters_ranges:
  assumes "wf_generator G"
  shows "(\<forall>a' g'. Actor_reset_parameters G a g = (None, a', g') \<longrightarrow> initialised a')
   \<and> (\<forall>c' g'. Critic_reset_parameters G c g = (None, c', g') \<longrightarrow> initialised c')
   \<and> Critic_reset_parameters G a g = Actor_reset_parameters G a g
   \<and> (\<forall>a' g'. Actor_init G input_dim hidden_in_dim hidden_out_dim output_dim seed g
                  = (Inr a', g') \<longrightarrow>
         initialised a' \<and> hd (size_of (weight (fc1 a'))) = hidden_in_dim
         \<and> hd (size_of (weight (fc2 a'))) = hidden_out_dim)
   \<and> (\<forall>c' g'. Critic_init G input_dim hidden_in_dim hidden_out_dim seed g = (Inr c', g') \<longrightarrow>
         initialised c' \<and> hd (size_of (weight (fc1 c'))) = hidden_in_dim
         \<and> hd (size_of (weight (fc2 c'))) = hidden_out_dim)"
proof -
  have init: "initialised a' \<and> hd (size_of (weight (fc1 a'))) = h1
      \<and> hd (size_of (weight (fc2 a'))) = h2"
    if "Actor_init G i h1 h2 k seed g = (Inr a', g')" for i h1 h2 k a' g'
    using Actor_init_Inr [OF that] Actor_init_shape [OF that]
      Actor_reset_parameters_initialised [OF assms] by auto
  show ?thesis
    using Actor_reset_parameters_initialised [OF assms] init
    by (auto simp: Critic_is_Actor_reset Critic_init_eq_Actor_init)
qed

theorem reset_parameters_ranges_witness:
  "wf_generator counting_generator
   \<and> (\<exists>a' g'. Actor_init counting_generator 3 4 2 1 0 0 = (Inr a', g')
        \<and> weights_within (1 / sqrt 4) (fc1 a') \<and> weights_within (1 / sqrt 2) (fc2 a')
        \<and> weights_within (3 / 1000) (fc3 a'))"
proof -
  have "seed_ok 0" by (simp add: seed_ok_def)
  then obtain a' g' where
    a': "Actor_init counting_generator 3 4 2 1 0 0 = (Inr a', g')"
    using Actor_init_succeeds [of 0 4 2 counting_generator 3 1 0] by auto
  with reset_parameters_ranges [where G = counting_generator and input_dim = 3
      and hidden_in_dim = 4 and hidden_out_dim = 2 and output_dim = 1 and seed = 0 and g = 0,
      OF wf_counting_generator]
  have "initialised a' \<and> hd (size_of (weight (fc1 a'))) = 4
      \<and> hd (size_of (weight (fc2 a'))) = 2" by blast
  with a' wf_counting_generator show ?thesis by (auto simp: initialised_def)
qed

text \<open>
  C8. Whatever its outcome, \<open>reset_parameters\<close> leaves the three bias vectors and the whole
  normalisation stage (parameters, running statistics, mode) of an Actor and of a Critic as
  they were. Hence after construction the biases are the ones the layers were allocated with
  and the normalisation stage is a fresh one.
\<close>

theorem reset_parameters_frame:
  "bn (fst (snd (Actor_reset_parameters G a g))) = bn a
   \<and> bias (fc1 (fst (snd (Actor_reset_parameters G a g)))) = bias (fc1 a)
   \<and> bias (fc2 (fst (snd (Actor_reset_parameters G a g)))) = bias (fc2 a)
   \<and> bias (fc3 (fst (snd (Actor_reset_parameters G a g)))) = bias (fc3 a)
   \<and> bn (fst (snd (Critic_reset_parameters G c g))) = bn c
   \<and> bias (fc1 (fst (snd (Critic_reset_parameters G c g)))) = bias (fc1 c)
   \<and> bias (fc2 (fst (snd (Critic_reset_parameters G c g)))) = bias (fc2 c)
   \<and> bias (fc3 (fst (snd (Critic_reset_parameters G c g)))) = bias (fc3 c)
   \<and> (\<forall>a' g'. Actor_init G input_dim hidden_in_dim hidden_out_dim output_dim seed g
                  = (Inr a', g') \<longrightarrow>
         bn a' = nn_BatchNorm1d hidden_in_dim
         \<and> bias (fc1 a') = bias (fst (nn_Linear G input_dim hidden_in_dim (seed_state G seed)))
         \<and> bias (fc2 a')
             = bias (fc2 (fst (allocated G input_dim hidden_in_dim hidden_out_dim output_dim seed)))
         \<and> bias (fc3 a')
             = bias (fc3 (fst (allocated G input_dim hidden_in_dim hidden_out_dim output_dim seed))))"
proof -
  have "bn a' = nn_BatchNorm1d hidden_in_dim
      \<and> bias (fc1 a') = bias (fst (nn_Linear G input_dim hidden_in_dim (seed_state G seed)))
      \<and> bias (fc2 a')
          = bias (fc2 (fst (allocated G input_dim hidden_in_dim hidden_out_dim output_dim seed)))
      \<and> bias (fc3 a')
          = bias (fc3 (fst (allocated G input_dim hidden_in_dim hidden_out_dim output_dim seed)))"
    if "Actor_init G input_dim hidden_in_dim hidden_out_dim output_dim seed g = (Inr a', g')"
    for a' g'
  proof -
    let ?al = "allocated G input_dim hidden_in_dim hidden_out_dim output_dim seed"
    from Actor_init_Inr [OF that]
    have "Actor_reset_parameters G (fst ?al) (snd ?al) = (None, a', g')" by simp
    with Actor_reset_parameters_frame [of G "fst ?al" "snd ?al"]
    have "bn a' = bn (fst ?al)" "bias (fc1 a') = bias (fc1 (fst ?al))"
      "bias (fc2 a') = bias (fc2 (fst ?al))" "bias (fc3 a') = bias (fc3 (fst ?al))"
      by simp_all
    moreover have "bn (fst ?al) = nn_BatchNorm1d hidden_in_dim"
      "fc1 (fst ?al) = fst (nn_Linear G input_dim hidden_in_dim (seed_state G seed))"
      by (simp_all add: allocated_def Let_def case_prod_beta)
    ultimately show ?thesis by simp
  qed
  with Actor_reset_parameters_frame [of G a g] Actor_reset_parameters_frame [of G c g]
  show ?thesis by (simp add: Critic_is_Actor_reset)
qed

theorem reset_parameters_frame_witness:
  "\<exists>a' g'. Actor_init counting_generator 2 3 3 1 0 0 = (Inr a', g')
      \<and> bn a' = nn_BatchNorm1d 3
      \<and> bias (fc1 a') = bias (fst (nn_Linear counting_generator 2 3 0))"
proof -
  have "seed_ok 0" by (simp add: seed_ok_def)
  then obtain a' g' where
    a': "Actor_init counting_generator 2 3 3 1 0 0 = (Inr a', g')"
    using Actor_init_succeeds [of 0 3 3 counting_generator 2 1 0] by auto
  with reset_parameters_frame [where G = counting_generator and input_dim = 2
      and hidden_in_dim = 3 and hidden_out_dim = 3 and output_dim = 1 and seed = 0 and g = 0]
  have "bn a' = nn_BatchNorm1d 3
      \<and> bias (fc1 a') = bias (fst (nn_Linear counting_generator 2 3
            (seed_state counting_generator 0)))" by blast
  with a' show ?thesis by (auto simp: counting_generator_def)
qed

text \<open>
  The claim C2 as it is written promises a result for every input of the right width. A
  network in the state the constructor leaves it in is in training mode, and there the
  normalisation stage refuses a batch of one row: the call raises instead of returning.
\<close>

theorem Actor_forward_batch_of_one_counterexample:
  "training (bn example_network) \<and> wf_network 2 2 2 1 example_network
   \<and> fst (Actor_forward example_network (T2 2 [[1, 2]])) = Inl SingleValuePerChannel"
proof -
  have "batch_of 1 2 (T2 2 [[1, 2]])" by simp
  from Actor_forward_single_training [OF wf_example_network this training_example_network]
  have "fst (Actor_forward example_network (T2 2 [[1, 2]])) = Inl SingleValuePerChannel"
    by simp
  with wf_example_network training_example_network show ?thesis by blast
qed

text \<open>
  C2, amended. Let the Actor's shapes fit together, with a positive first hidden width, let
  the input be a batch of \<open>n\<close> rows of the input width, and let no quantity of the computation
  leave the float32 range (\<open>Actor_forward_fits\<close>). In evaluation mode, or in training mode
  when \<open>n\<close> is not 1, forward returns a tensor of shape \<open>(n, output_dim)\<close> computed as layer 1,
  rectifier, normalisation stage, layer 2, rectifier, layer 3, hyperbolic tangent; every
  intermediate tensor stays within the limit, and every element of the result lies in
  \<open>[-1, 1]\<close>; the only change to the Actor is the state of the normalisation stage. In
  training mode with \<open>n = 1\<close> the normalisation stage raises and no tensor is returned.
\<close>

theorem Actor_forward_result:
  assumes "wf_network i h1 h2 k a" and "0 < h1" and "batch_of n i state"
    and "Actor_forward_fits a state"
  shows "(\<not> training (bn a) \<or> n \<noteq> 1 \<longrightarrow>
            (\<exists>x1 x2 b x3 x4.
                linear_forward (fc1 a) state = Inr x1
              \<and> batch_norm_forward (bn a) (relu x1) = (Inr x2, b)
              \<and> linear_forward (fc2 a) x2 = Inr x3
              \<and> linear_forward (fc3 a) (relu x3) = Inr x4
              \<and> Actor_forward a state = (Inr (tanh_t x4), a\<lparr>bn := b\<rparr>)
              \<and> batch_of n k (tanh_t x4)
              \<and> within_limit x1 \<and> within_limit x2 \<and> within_limit x3 \<and> within_limit x4
              \<and> list_all (\<lambda>v. - 1 \<le> v \<and> v \<le> 1) (entries (tanh_t x4))))
       \<and> (training (bn a) \<and> n = 1 \<longrightarrow>
            fst (Actor_forward a state) = Inl SingleValuePerChannel)"
proof (intro conjI impI)
  assume "\<not> training (bn a) \<or> n \<noteq> 1"
  from Actor_forward_batch [OF assms(1,3) this] obtain x1 x2 b x3 x4 where
    p: "linear_forward (fc1 a) state = Inr x1"
    "batch_norm_forward (bn a) (relu x1) = (Inr x2, b)"
    "linear_forward (fc2 a) x2 = Inr x3"
    "linear_forward (fc3 a) (relu x3) = Inr x4"
    and r: "Actor_forward a state = (Inr (tanh_t x4), a\<lparr>bn := b\<rparr>)"
    "batch_of n k (tanh_t x4)" by blast
  from Actor_forward_within [OF assms(4,3) p]
  have "within_limit x1" "within_limit x2" "within_limit x3" "within_limit x4" by simp_all
  with p r tanh_t_range [of x4]
  show "\<exists>x1 x2 b x3 x4.
      linear_forward (fc1 a) state = Inr x1
    \<and> batch_norm_forward (bn a) (relu x1) = (Inr x2, b)
    \<and> linear_forward (fc2 a) x2 = Inr x3
    \<and> linear_forward (fc3 a) (relu x3) = Inr x4
    \<and> Actor_forward a state = (Inr (tanh_t x4), a\<lparr>bn := b\<rparr>)
    \<and> batch_of n k (tanh_t x4)
    \<and> within_limit x1 \<and> within_limit x2 \<and> within_limit x3 \<and> within_limit x4
    \<and> list_all (\<lambda>v. - 1 \<le> v \<and> v \<le> 1) (entries (tanh_t x4))" by blast
next
  assume "training (bn a) \<and> n = 1"
  with Actor_forward_single_training [OF assms(1), of state] assms(3)
  show "fst (Actor_forward a state) = Inl SingleValuePerChannel" by simp
qed

theorem Actor_forward_result_witness:
  "wf_network 2 2 2 1 example_network \<and> (0::nat) < 2 \<and> batch_of 2 2 example_batch
   \<and> Actor_forward_fits example_network example_batch
   \<and> (\<exists>y a'. Actor_forward example_network example_batch = (Inr y, a')
         \<and> size_of y = [2, 1] \<and> list_all (\<lambda>v. - 1 \<le> v \<and> v \<le> 1) (entries y))"
proof -
  have b: "batch_of 2 2 example_batch" by (simp add: example_batch_def)
  have p: "(0::nat) < 2" by simp
  have "(2::nat) \<noteq> 1" by simp
  with Actor_forward_result [OF wf_example_network p b Actor_forward_fits_example]
  obtain y a' where
    "Actor_forward example_network example_batch = (Inr y, a')"
    "batch_of 2 1 y" "list_all (\<lambda>v. - 1 \<le> v \<and> v \<le> 1) (entries y)" by blast
  with b p wf_example_network Actor_forward_fits_example show ?thesis
    by (auto simp: batch_of_def)
qed

text \<open>
  The claim C6 as it is written promises an output of shape \<open>(1, output_dim)\<close> for a vector
  and for the same values as a batch of one row. In training mode, the mode after
  construction, both calls raise in the normalisation stage.
\<close>

theorem Actor_forward_vector_counterexample:
  "length [1, 2 :: real] = 2 \<and> in_features (fc1 example_network) = 2
   \<and> training (bn example_network)
   \<and> fst (Actor_forward example_network (T1 [1, 2])) = Inl SingleValuePerChannel
   \<and> fst (Actor_forward example_network (T2 2 [[1, 2]])) = Inl SingleValuePerChannel"
proof -
  have len: "length [1, 2 :: real] = 2" by simp
  have inw: "in_features (fc1 example_network) = 2" by (simp add: example_network_def)
  have "batch_of 1 2 (T2 2 [[1, 2]])" by simp
  from Actor_forward_single_training [OF wf_example_network this training_example_network]
  have 2: "fst (Actor_forward example_network (T2 2 [[1, 2]])) = Inl SingleValuePerChannel"
    by simp
  have "Actor_forward example_network (T1 [1, 2]) = Actor_forward example_network (T2 2 [[1, 2]])"
    using Actor_forward_T1 [of example_network "[1, 2]"] unfolding len .
  with 2 have 1: "fst (Actor_forward example_network (T1 [1, 2])) = Inl SingleValuePerChannel"
    by simp
  from len inw training_example_network 1 2 show ?thesis by blast
qed

text \<open>
  C6, amended. forward promotes a vector of length \<open>input_dim\<close> to a batch of one row before
  anything else, so the vector and the batch \<open>(1, input_dim)\<close> of the same values have the
  same outcome. In evaluation mode that outcome is an output of shape \<open>(1, output_dim)\<close> and
  an unchanged Actor. In training mode, which is the mode of a newly constructed Actor, both
  calls fail: the normalisation stage refuses a batch of one row.
\<close>

theorem Actor_forward_vector:
  assumes "wf_network i h1 h2 k a" and "length xs = i"
  shows "Actor_forward a (T1 xs) = Actor_forward a (unsqueeze0 xs)
       \<and> unsqueeze0 xs = T2 i [xs]
       \<and> (\<not> training (bn a) \<longrightarrow>
            (\<exists>y. Actor_forward a (T1 xs) = (Inr y, a) \<and> Actor_forward a (T2 i [xs]) = (Inr y, a)
               \<and> size_of y = [1, k] \<and> wf_tensor y))
       \<and> (training (bn a) \<longrightarrow>
            fst (Actor_forward a (T1 xs)) = Inl SingleValuePerChannel
          \<and> fst (Actor_forward a (T2 i [xs])) = Inl SingleValuePerChannel)
       \<and> (wf_generator G \<and> Actor_init G i h1 h2 k seed g = (Inr a, g') \<longrightarrow> training (bn a))"
proof -
  have u: "unsqueeze0 xs = T2 i [xs]" using assms(2) by (simp add: unsqueeze0_def)
  have eq: "Actor_forward a (T1 xs) = Actor_forward a (T2 i [xs])"
    using assms(2) by (simp add: Actor_forward_T1)
  have b: "batch_of 1 i (T2 i [xs])" using assms(2) by simp
  have ev: "\<exists>y. Actor_forward a (T2 i [xs]) = (Inr y, a) \<and> size_of y = [1, k] \<and> wf_tensor y"
    if "\<not> training (bn a)"
  proof -
    from that have "\<not> training (bn a) \<or> (1::nat) \<noteq> 1" by simp
    from Actor_forward_batch [OF assms(1) b this] that obtain x4 where
      "Actor_forward a (T2 i [xs]) = (Inr (tanh_t x4), a\<lparr>bn := bn a\<rparr>)"
      "batch_of 1 k (tanh_t x4)" by auto
    then show ?thesis by (auto simp: batch_of_def)
  qed
  have tr: "fst (Actor_forward a (T2 i [xs])) = Inl SingleValuePerChannel" if "training (bn a)"
    using Actor_forward_single_training [OF assms(1) b that] by simp
  from u eq ev tr Actor_init_wf [of G i h1 h2 k seed g a g'] show ?thesis by auto
qed

theorem Actor_forward_vector_witness:
  "wf_network 2 2 2 1 (eval_mode example_network) \<and> length [1, 2 :: real] = 2
   \<and> (\<exists>y. Actor_forward (eval_mode example_network) (T1 [1, 2])
             = (Inr y, eval_mode example_network)
         \<and> Actor_forward (eval_mode example_network) (T2 2 [[1, 2]])
             = (Inr y, eval_mode example_network)
         \<and> size_of y = [1, 1])"
proof -
  note wf = wf_eval_mode [OF wf_example_network]
  have len: "length [1, 2 :: real] = 2" by simp
  from Actor_forward_vector [where G = counting_generator and seed = 0 and g = 0 and g' = 0,
      OF wf len] training_eval_mode [of example_network]
  obtain y where
    "Actor_forward (eval_mode example_network) (T1 [1, 2]) = (Inr y, eval_mode example_network)"
    "Actor_forward (eval_mode example_network) (T2 2 [[1, 2]]) = (Inr y, eval_mode example_network)"
    "size_of y = [1, 1]" by blast
  with wf show ?thesis by auto
qed

text \<open>
  The claim C7 as it is written promises a result of shape \<open>(batch, 1)\<close> for every pair of
  batch-aligned inputs. In training mode, the mode after construction, a batch of one row is
  refused by the normalisation stage.
\<close>

theorem Critic_forward_batch_of_one_counterexample:
  "training (bn example_network) \<and> wf_network 2 2 2 1 example_network
   \<and> fst (Critic_forward example_network (T2 1 [[1]]) (T2 1 [[2]])) = Inl SingleValuePerChannel"
proof -
  have s: "batch_of 1 1 (T2 1 [[1]])" and a: "batch_of 1 1 (T2 1 [[2]])" by simp_all
  have w: "(1::nat) + 1 = 2" by simp
  from Critic_forward_single_training [OF wf_example_network s a w training_example_network]
  have "fst (Critic_forward example_network (T2 1 [[1]]) (T2 1 [[2]]))
      = Inl SingleValuePerChannel" by simp
  with wf_example_network training_example_network show ?thesis by blast
qed

text \<open>
  C7, amended. Let the Critic's shapes fit together, and let state and action be batches of
  \<open>n\<close> rows whose widths add up to the input width. In evaluation mode, or in training mode
  when \<open>n\<close> is not 1, forward concatenates them along the feature dimension and returns a
  tensor of shape \<open>(n, 1)\<close>, which is the output of layer 3 as it is: no activation follows.
  In training mode with \<open>n = 1\<close> the normalisation stage raises. The result is not confined
  to any range: for every real \<open>v\<close> there is a Critic that returns \<open>v\<close>.
\<close>

theorem Critic_forward_result:
  assumes "wf_network i h1 h2 1 c" and "batch_of n sw state" and "batch_of n aw action"
    and "sw + aw = i"
  shows "(\<not> training (bn c) \<or> n \<noteq> 1 \<longrightarrow>
            (\<exists>xs x1 x2 b x3 y.
                cat_dim1 state action = Inr xs \<and> batch_of n i xs
              \<and> linear_forward (fc1 c) xs = Inr x1
              \<and> batch_norm_forward (bn c) (relu x1) = (Inr x2, b)
              \<and> linear_forward (fc2 c) x2 = Inr x3
              \<and> linear_forward (fc3 c) (relu x3) = Inr y
              \<and> Critic_forward c state action = (Inr y, c\<lparr>bn := b\<rparr>)
              \<and> size_of y = [n, 1] \<and> wf_tensor y))
       \<and> (training (bn c) \<and> n = 1 \<longrightarrow>
            fst (Critic_forward c state action) = Inl SingleValuePerChannel)
       \<and> wf_network 2 2 2 1 (constant_critic v)
       \<and> fst (Critic_forward (constant_critic v) (T2 1 [[0]]) (T2 1 [[0]])) = Inr (T2 1 [[v]])"
proof (intro conjI impI)
  assume "\<not> training (bn c) \<or> n \<noteq> 1"
  from Critic_forward_batch [OF assms this] obtain xs x1 x2 b x3 y where
    "cat_dim1 state action = Inr xs" "batch_of n i xs"
    "linear_forward (fc1 c) xs = Inr x1"
    "batch_norm_forward (bn c) (relu x1) = (Inr x2, b)"
    "linear_forward (fc2 c) x2 = Inr x3"
    "linear_forward (fc3 c) (relu x3) = Inr y"
    "Critic_forward c state action = (Inr y, c\<lparr>bn := b\<rparr>)"
    "batch_of n 1 y" by blast
  then show "\<exists>xs x1 x2 b x3 y.
      cat_dim1 state action = Inr xs \<and> batch_of n i xs
    \<and> linear_forward (fc1 c) xs = Inr x1
    \<and> batch_norm_forward (bn c) (relu x1) = (Inr x2, b)
    \<and> linear_forward (fc2 c) x2 = Inr x3
    \<and> linear_forward (fc3 c) (relu x3) = Inr y
    \<and> Critic_forward c state action = (Inr y, c\<lparr>bn := b\<rparr>)
    \<and> size_of y = [n, 1] \<and> wf_tensor y" unfolding batch_of_def by blast
next
  assume "training (bn c) \<and> n = 1"
  with Critic_forward_single_training [OF assms(1), of sw state aw action] assms(2,3,4)
  show "fst (Critic_forward c state action) = Inl SingleValuePerChannel" by simp
next
  show "wf_network 2 2 2 1 (constant_critic v)" by (rule wf_constant_critic)
next
  show "fst (Critic_forward (constant_critic v) (T2 1 [[0]]) (T2 1 [[0]])) = Inr (T2 1 [[v]])"
    by (rule constant_critic_value)
qed

theorem Critic_forward_result_witness:
  "wf_network 2 2 2 1 example_network \<and> batch_of 3 1 (T2 1 [[1], [2], [4]])
   \<and> batch_of 3 1 (T2 1 [[0], [1], [0]]) \<and> (1::nat) + 1 = 2
   \<and> (\<exists>y c'. Critic_forward example_network (T2 1 [[1], [2], [4]]) (T2 1 [[0], [1], [0]])
                 = (Inr y, c')
         \<and> size_of y = [3, 1])"
proof -
  have s: "batch_of 3 1 (T2 1 [[1], [2], [4]])" and a: "batch_of 3 1 (T2 1 [[0], [1], [0]])"
    by simp_all
  have w: "(1::nat) + 1 = 2" by simp
  have "(3::nat) \<noteq> 1" by simp
  with Critic_forward_result [OF wf_example_network s a w] obtain y c' where
    "Critic_forward example_network (T2 1 [[1], [2], [4]]) (T2 1 [[0], [1], [0]]) = (Inr y, c')"
    "size_of y = [3, 1]" by blast
  with s a w wf_example_network show ?thesis by blast
qed

text \<open>
  C9. An input to \<open>Actor.forward\<close> whose last dimension is not the input width of layer 1
  makes the call fail with a dimension mismatch; the error is the outcome of the call and the
  Actor is unchanged. Nothing is truncated or padded. \<open>Critic.forward\<close> fails in the same
  way when state and action have different numbers of rows, and when their widths do not add
  up to the input width of layer 1.
\<close>

theorem forward_dimension_mismatch:
  "(size_of (weight (fc1 a)) = [m, input_dim] \<and> last (size_of state) \<noteq> input_dim \<longrightarrow>
      Actor_forward a state = (Inl DimensionMismatch, a))
   \<and> (size_of s = [n, sw] \<and> size_of act = [n', aw] \<and> n \<noteq> n' \<longrightarrow>
      Critic_forward c s act = (Inl DimensionMismatch, c))
   \<and> (size_of s = [n, sw] \<and> size_of act = [n, aw] \<and> size_of (weight (fc1 c)) = [m', i]
       \<and> sw + aw \<noteq> i \<longrightarrow>
      Critic_forward c s act = (Inl DimensionMismatch, c))"
proof (intro conjI impI)
  assume "size_of (weight (fc1 a)) = [m, input_dim] \<and> last (size_of state) \<noteq> input_dim"
  then show "Actor_forward a state = (Inl DimensionMismatch, a)"
    by (simp add: Actor_forward_mismatch)
next
  assume "size_of s = [n, sw] \<and> size_of act = [n', aw] \<and> n \<noteq> n'"
  then have "cat_dim1 s act = Inl DimensionMismatch"
    using cat_dim1_batch_mismatch [of s n sw act n' aw] by simp
  then show "Critic_forward c s act = (Inl DimensionMismatch, c)"
    by (rule Critic_forward_cat_fails)
next
  assume "size_of s = [n, sw] \<and> size_of act = [n, aw] \<and> size_of (weight (fc1 c)) = [m', i]
      \<and> sw + aw \<noteq> i"
  then show "Critic_forward c s act = (Inl DimensionMismatch, c)"
    using Critic_forward_width_mismatch [of s n sw act aw c m' i] by simp
qed

theorem forward_dimension_mismatch_witness:
  "size_of (weight (fc1 example_network)) = [2, 2]
   \<and> Actor_forward example_network (T1 [1, 2, 3]) = (Inl DimensionMismatch, example_network)
   \<and> Actor_forward example_network (T2 3 [[1, 2, 3], [4, 5, 6]])
       = (Inl DimensionMismatch, example_network)
   \<and> Critic_forward example_network (T2 1 [[1], [2]]) (T2 1 [[1], [2], [3]])
       = (Inl DimensionMismatch, example_network)
   \<and> Critic_forward example_network (T2 2 [[1, 2], [3, 4]]) (T2 1 [[1], [2]])
       = (Inl DimensionMismatch, example_network)"
proof -
  have w: "size_of (weight (fc1 example_network)) = [2, 2]"
    by (simp add: example_network_def)
  have 1: "Actor_forward example_network (T1 [1, 2, 3]) = (Inl DimensionMismatch, example_network)"
    using forward_dimension_mismatch [of example_network 2 2 "T1 [1, 2, 3]"] w by simp
  have 2: "Actor_forward example_network (T2 3 [[1, 2, 3], [4, 5, 6]])
      = (Inl DimensionMismatch, example_network)"
    using forward_dimension_mismatch [of example_network 2 2 "T2 3 [[1, 2, 3], [4, 5, 6]]"] w
    by simp
  have 3: "Critic_forward example_network (T2 1 [[1], [2]]) (T2 1 [[1], [2], [3]])
      = (Inl DimensionMismatch, example_network)"
    using forward_dimension_mismatch [where s = "T2 1 [[1], [2]]" and n = 2 and sw = 1
        and act = "T2 1 [[1], [2], [3]]" and n' = 3 and aw = 1 and c = example_network]
    by simp
  have 4: "Critic_forward example_network (T2 2 [[1, 2], [3, 4]]) (T2 1 [[1], [2]])
      = (Inl DimensionMismatch, example_network)"
    using forward_dimension_mismatch [where s = "T2 2 [[1, 2], [3, 4]]" and n = 2 and sw = 2
        and act = "T2 1 [[1], [2]]" and aw = 1 and c = example_network and m' = 2 and i = 2] w
    by simp
  from w 1 2 3 4 show ?thesis by blast
qed

text \<open>
  The claim C10 as it is written says that vectors always fail in the concatenation and that
  a result needs two inputs of rank two. The concatenation skips the empty vector (size
  (0,)): two empty vectors pass it, and the call fails in layer 1 instead; an empty vector as
  state with a batch as action gives a result.
\<close>

theorem Critic_forward_empty_vector_counterexample:
  "cat_dim1 (T1 []) (T1 []) = Inr (T1 [])
   \<and> Critic_forward example_network (T1 []) (T1 []) = (Inl DimensionMismatch, example_network)
   \<and> cat_dim1 (T1 []) (T2 2 [[1, 2], [3, 5]]) = Inr (T2 2 [[1, 2], [3, 5]])
   \<and> \<not> isl (fst (Critic_forward example_network (T1 []) (T2 2 [[1, 2], [3, 5]])))
   \<and> size_of (projr (fst (Critic_forward example_network (T1 []) (T2 2 [[1, 2], [3, 5]]))))
       = [2, 1]"
proof -
  have 1: "cat_dim1 (T1 []) (T1 []) = Inr (T1 [])" by simp
  have "linear_forward (fc1 example_network) (T1 []) = Inl DimensionMismatch"
    by (simp add: linear_forward_def example_network_def)
  then have 2: "Critic_forward example_network (T1 []) (T1 [])
      = (Inl DimensionMismatch, example_network)"
    by (simp add: Critic_forward_cat [OF 1])
  have 3: "cat_dim1 (T1 []) (T2 2 [[1, 2], [3, 5]]) = Inr (T2 2 [[1, 2], [3, 5]])" by simp
  have 4: "cat_dim1 (T2 1 [[1], [3]]) (T2 1 [[2], [5]]) = Inr (T2 2 [[1, 2], [3, 5]])" by simp
  have s: "batch_of 2 1 (T2 1 [[1], [3]])" and a: "batch_of 2 1 (T2 1 [[2], [5]])" by simp_all
  have w: "(1::nat) + 1 = 2" by simp
  have m: "\<not> training (bn example_network) \<or> (2::nat) \<noteq> 1" by simp
  from Critic_forward_batch [OF wf_example_network s a w m] obtain y c' where
    "Critic_forward example_network (T2 1 [[1], [3]]) (T2 1 [[2], [5]]) = (Inr y, c')"
    "batch_of 2 1 y" by blast
  with Critic_forward_same_cat [OF 3 4, of example_network]
  have "fst (Critic_forward example_network (T1 []) (T2 2 [[1, 2], [3, 5]])) = Inr y"
    "size_of y = [2, 1]" by (simp_all add: batch_of_def)
  then have 5: "\<not> isl (fst (Critic_forward example_network (T1 []) (T2 2 [[1, 2], [3, 5]])))"
    and 6: "size_of (projr (fst (Critic_forward example_network (T1 [])
        (T2 2 [[1, 2], [3, 5]])))) = [2, 1]" by simp_all
  from 1 2 3 5 6 show ?thesis by blast
qed

text \<open>
  C10, amended. \<open>Critic.forward\<close> promotes nothing, unlike \<open>Actor.forward\<close>. Called with two
  vectors it never gives a result: when one of them is not empty the concatenation fails (a
  vector has no dimension 1), and when both are empty the concatenation returns the empty
  vector and the call fails in layer 1 or in the normalisation stage. Whenever a result is
  produced, the inputs are not both of rank one and any input of rank one is the empty
  vector. Nothing is said of the rank an input must have: the statement is about vectors,
  and it stays true for inputs of the ranks that the tensors of this theory leave out.
\<close>

theorem Critic_forward_no_promotion:
  "(xs \<noteq> [] \<or> ys \<noteq> [] \<longrightarrow>
      cat_dim1 (T1 xs) (T1 ys) = Inl DimensionOutOfRange
    \<and> Critic_forward c (T1 xs) (T1 ys) = (Inl DimensionOutOfRange, c))
   \<and> cat_dim1 (T1 []) (T1 []) = Inr (T1 [])
   \<and> (Critic_forward c (T1 []) (T1 []) = (Inl DimensionMismatch, c)
       \<or> Critic_forward c (T1 []) (T1 []) = (Inl ExpectedBatchInput, c))
   \<and> (fst (Critic_forward c s a) = Inr y \<longrightarrow>
        \<not> (ndim s = 1 \<and> ndim a = 1) \<and> (ndim s = 1 \<longrightarrow> s = T1 [])
      \<and> (ndim a = 1 \<longrightarrow> a = T1 []))
   \<and> Actor_forward c (T1 xs) = Actor_forward c (unsqueeze0 xs)"
proof (intro conjI impI)
  assume ne: "xs \<noteq> [] \<or> ys \<noteq> []"
  then show "cat_dim1 (T1 xs) (T1 ys) = Inl DimensionOutOfRange" by auto
  from ne show "Critic_forward c (T1 xs) (T1 ys) = (Inl DimensionOutOfRange, c)"
    by (rule Critic_forward_vectors)
next
  show "cat_dim1 (T1 []) (T1 []) = Inr (T1 [])" by simp
next
  show "Critic_forward c (T1 []) (T1 []) = (Inl DimensionMismatch, c)
      \<or> Critic_forward c (T1 []) (T1 []) = (Inl ExpectedBatchInput, c)"
    by (rule Critic_forward_empty_vectors)
next
  assume r: "fst (Critic_forward c s a) = Inr y"
  show "\<not> (ndim s = 1 \<and> ndim a = 1)"
  proof
    assume "ndim s = 1 \<and> ndim a = 1"
    then obtain xs' ys' where v: "s = T1 xs'" "a = T1 ys'" by (cases s; cases a) simp_all
    show False
    proof (cases "xs' = [] \<and> ys' = []")
      case True
      with Critic_forward_empty_vectors [of c] r v show False by auto
    next
      case False
      then have "xs' \<noteq> [] \<or> ys' \<noteq> []" by simp
      from Critic_forward_vectors [OF this, of c] r v show False by simp
    qed
  qed
  {
    assume "ndim s = 1"
    with Critic_forward_Inr_ranks [OF r] show "s = T1 []" by simp
  }
  {
    assume "ndim a = 1"
    with Critic_forward_Inr_ranks [OF r] show "a = T1 []" by simp
  }
next
  show "Actor_forward c (T1 xs) = Actor_forward c (unsqueeze0 xs)"
    by (simp add: Actor_forward_T1 unsqueeze0_def)
qed

theorem Critic_forward_no_promotion_witness:
  "Critic_forward example_network (T1 [1, 2]) (T1 [3])
     = (Inl DimensionOutOfRange, example_network)
   \<and> Critic_forward example_network (T1 []) (T1 [3])
     = (Inl DimensionOutOfRange, example_network)"
proof -
  have "Critic_forward example_network (T1 [1, 2]) (T1 [3])
      = (Inl DimensionOutOfRange, example_network)"
    using Critic_forward_no_promotion [of "[1, 2]" "[3]" example_network] by simp
  moreover have "Critic_forward example_network (T1 []) (T1 [3])
      = (Inl DimensionOutOfRange, example_network)"
    using Critic_forward_no_promotion [of "[]" "[3]" example_network] by simp
  ultimately show ?thesis by blast
qed

end
